theory Spec2Isabelle
  imports Complex_Main
begin

section \<open>Values, arrays and exceptions\<close>

text \<open>
  The exceptions of the Python source that the cross-section module raises, propagates or
  catches. A function that can raise returns \<open>py_error + 'a\<close>, with \<open>Inl\<close> the exception.
\<close>

datatype py_error =
  ValueError | ZeroDivisionError | AttributeError | IndexError | NotImplementedError
  | OverflowError

definition bindE :: "py_error + 'a \<Rightarrow> ('a \<Rightarrow> py_error + 'b) \<Rightarrow> py_error + 'b" where
  "bindE m f = (case m of Inl e \<Rightarrow> Inl e | Inr v \<Rightarrow> f v)"

text \<open>
  A floating-point sample is either not-a-number or a value; values are idealised as reals
  (rounding is not modelled). A one-dimensional array is a list of samples.
\<close>

datatype npfloat = NaN | Val real

type_synonym array1 = "npfloat list"

datatype dtype = Float64 | Int64

text \<open>
  A two-dimensional numpy array: its element type, its shape and its elements by
  (row, column). The shape is kept apart from the elements, so that an array with no rows
  still has a number of columns, as in numpy.
\<close>

record ndarray2 =
  arr_dtype :: dtype
  nrows :: nat
  ncols :: nat
  elem :: "nat \<Rightarrow> nat \<Rightarrow> npfloat"

fun isnan :: "npfloat \<Rightarrow> bool" where
  "isnan NaN = True"
| "isnan (Val v) = False"

fun vals :: "npfloat list \<Rightarrow> real list option" where
  "vals [] = Some []"
| "vals (NaN # xs) = None"
| "vals (Val v # xs) = (case vals xs of None \<Rightarrow> None | Some vs \<Rightarrow> Some (v # vs))"

text \<open>\<open>a.mean()\<close>: not-a-number for an empty selection or when a member is not-a-number.\<close>

definition np_mean :: "npfloat list \<Rightarrow> npfloat" where
  "np_mean xs =
     (if xs = [] then NaN
      else case vals xs of None \<Rightarrow> NaN
           | Some vs \<Rightarrow> Val (sum_list vs / real (length vs)))"

text \<open>\<open>data.mean(axis=0)\<close>: one mean per column; \<open>data.mean(axis=1)\<close>: one per row.\<close>

definition mean_axis0 :: "ndarray2 \<Rightarrow> array1" where
  "mean_axis0 d = map (\<lambda>j. np_mean (map (\<lambda>i. elem d i j) [0..<nrows d])) [0..<ncols d]"

definition mean_axis1 :: "ndarray2 \<Rightarrow> array1" where
  "mean_axis1 d = map (\<lambda>i. np_mean (map (\<lambda>j. elem d i j) [0..<ncols d])) [0..<nrows d]"

text \<open>\<open>np.linspace(a, b, n)\<close>: \<open>n\<close> evenly spaced samples from \<open>a\<close> to \<open>b\<close>, both included.\<close>

definition linspace :: "real \<Rightarrow> real \<Rightarrow> nat \<Rightarrow> real list" where
  "linspace a b n =
     (if n = 1 then [a]
      else map (\<lambda>i. a + real i * ((b - a) / real (n - 1))) [0..<n])"

section \<open>Plots, image items and target objects\<close>

text \<open>
  A canvas point (\<open>QPoint\<close>) is a pair of coordinates; the conversion of the coordinates
  to integers by Qt is not modelled.
\<close>

type_synonym qpoint = "real \<times> real"

text \<open>The result of \<open>TrImageItem.get_transform()\<close>.\<close>

record tr_params =
  tr_x0 :: real
  tr_y0 :: real
  tr_angle :: real
  tr_dx :: real
  tr_dy :: real
  tr_hflip :: bool
  tr_vflip :: bool

text \<open>
  An item of an image plot, as \<open>get_image_data\<close> looks at it: whether it is an instance of
  \<open>ImageItem\<close>, of \<open>XYImageItem\<close>, and its transform when it is an instance of
  \<open>TrImageItem\<close> (the classes are declared in \<open>guiqwt.image\<close>).
\<close>

record image_item =
  is_ImageItem :: bool
  is_XYImageItem :: bool
  tr_transform :: "tr_params option"

text \<open>
  The image plot an object lives on. \<open>get_plot_source_rect\<close> and \<open>get_image_from_plot\<close>
  are functions of \<open>guiqwt.image\<close> that take the plot; they are parameters of the model,
  carried by the plot. \<open>get_image_from_plot\<close> may raise.
\<close>

record image_plot =
  plot_items :: "image_item list"
  canvasMap_bottom :: "real \<times> real"
  canvasMap_left :: "real \<times> real"
  axis_direction_left :: bool
  get_plot_source_rect :: "qpoint \<Rightarrow> qpoint \<Rightarrow> real \<times> real \<times> real \<times> real"
  get_image_from_plot :: "qpoint \<Rightarrow> qpoint \<Rightarrow> real \<Rightarrow> real \<Rightarrow> bool \<Rightarrow> py_error + ndarray2"

text \<open>
  A marker or shape: \<open>get_rect_attr\<close> is the result of \<open>get_rect()\<close> when the object has that
  method, \<open>get_pos_attr\<close> likewise for \<open>get_pos()\<close>, \<open>xyValue_attr\<close> for the pair
  \<open>xValue()\<close>, \<open>yValue()\<close> of a marker; \<open>obj_plot\<close> is \<open>obj.plot()\<close>.
\<close>

record target =
  get_rect_attr :: "(real \<times> real \<times> real \<times> real) option"
  get_pos_attr :: "(real \<times> real) option"
  xyValue_attr :: "(real \<times> real) option"
  obj_plot :: "image_plot option"
  axes_to_canvas :: "real \<Rightarrow> real \<Rightarrow> real \<times> real"
  canvas_to_axes :: "qpoint \<Rightarrow> real \<times> real"

section \<open>Sampling the plot\<close>

text \<open>Python's \<open>max\<close> of a list that is not empty.\<close>

definition py_max :: "real list \<Rightarrow> real" where
  "py_max xs = fold max (tl xs) (hd xs)"

definition py_truediv :: "real \<Rightarrow> real \<Rightarrow> py_error + real" where
  "py_truediv a b = (if b = 0 then Inl ZeroDivisionError else Inr (a / b))"

text \<open>\<open>get_image_data\<close>: \<open>Inr None\<close> is the bare \<open>return\<close> taken when no item is eligible.\<close>

definition get_image_data ::
  "image_plot \<Rightarrow> qpoint \<Rightarrow> qpoint \<Rightarrow> bool \<Rightarrow> py_error + ndarray2 option" where
  "get_image_data plot p0 p1 apply_lut =
     (let items = List.filter (\<lambda>item. is_ImageItem item \<and> \<not> is_XYImageItem item) (plot_items plot)
      in if items = [] then Inr None
         else case get_plot_source_rect plot p0 p1 of (src_x, src_y, src_w, src_h) \<Rightarrow>
           (let trparams = List.map_filter tr_transform items
            in bindE (if trparams \<noteq> [] then py_truediv src_w (py_max (map tr_dx trparams))
                      else Inr src_w) (\<lambda>src_w'.
               bindE (if trparams \<noteq> [] then py_truediv src_h (py_max (map tr_dy trparams))
                      else Inr src_h) (\<lambda>src_h'.
               bindE (get_image_from_plot plot p0 p1 src_w' src_h' apply_lut) (\<lambda>data.
               Inr (Some data))))))"

definition get_rectangular_area :: "target \<Rightarrow> (real \<times> real \<times> real \<times> real) option" where
  "get_rectangular_area obj = get_rect_attr obj"

definition get_object_coordinates :: "target \<Rightarrow> py_error + real \<times> real" where
  "get_object_coordinates obj =
     (case get_pos_attr obj of
        Some p \<Rightarrow> Inr p
      | None \<Rightarrow> (case xyValue_attr obj of Some p \<Rightarrow> Inr p | None \<Rightarrow> Inl AttributeError))"

text \<open>
  What follows the \<open>try\<close> block of the four extractors: the handler of
  \<open>except (ValueError, ZeroDivisionError)\<close> returns two empty arrays, any other exception
  propagates, and the continuation \<open>k\<close> runs on the value the call returned. That value is
  \<open>None\<close> when no item was eligible, and \<open>data.mean\<close> on \<open>None\<close> raises AttributeError.
\<close>

definition sampled ::
  "py_error + ndarray2 option \<Rightarrow> (ndarray2 \<Rightarrow> array1 \<times> array1) \<Rightarrow> py_error + array1 \<times> array1" where
  "sampled r k =
     (case r of
        Inl e \<Rightarrow> (if e = ValueError \<or> e = ZeroDivisionError then Inr ([], []) else Inl e)
      | Inr None \<Rightarrow> Inl AttributeError
      | Inr (Some data) \<Rightarrow> Inr (k data))"

definition get_plot_x_section :: "target \<Rightarrow> bool \<Rightarrow> py_error + array1 \<times> array1" where
  "get_plot_x_section obj apply_lut =
     bindE (get_object_coordinates obj) (\<lambda>(x0', y0).
     case obj_plot obj of None \<Rightarrow> Inl AttributeError
     | Some plot \<Rightarrow>
       (let xc0 = fst (canvasMap_bottom plot); xc1 = snd (canvasMap_bottom plot);
            yc0 = snd (axes_to_canvas obj 0 y0);
            yc1 = (if axis_direction_left plot then yc0 + 1 else yc0 - 1)
        in sampled (get_image_data plot (xc0, yc0) (xc1, yc1) apply_lut) (\<lambda>data.
             let y = mean_axis0 data;
                 x0 = fst (canvas_to_axes obj (xc0, yc0));
                 x1 = fst (canvas_to_axes obj (xc1, yc1))
             in (map Val (linspace x0 x1 (length y)), y))))"

definition get_plot_y_section :: "target \<Rightarrow> bool \<Rightarrow> py_error + array1 \<times> array1" where
  "get_plot_y_section obj apply_lut =
     bindE (get_object_coordinates obj) (\<lambda>(x0, y0').
     case obj_plot obj of None \<Rightarrow> Inl AttributeError
     | Some plot \<Rightarrow>
       (let yc0 = (if axis_direction_left plot then snd (canvasMap_left plot)
                   else fst (canvasMap_left plot));
            yc1 = (if axis_direction_left plot then fst (canvasMap_left plot)
                   else snd (canvasMap_left plot));
            xc0 = fst (axes_to_canvas obj x0 0);
            xc1 = xc0 + 1
        in sampled (get_image_data plot (xc0, yc0) (xc1, yc1) apply_lut) (\<lambda>data.
             let y = mean_axis1 data;
                 y0 = snd (canvas_to_axes obj (xc0, yc0));
                 y1 = snd (canvas_to_axes obj (xc1, yc1))
             in (map Val (linspace y0 y1 (length y)), y))))"

definition get_plot_average_x_section :: "target \<Rightarrow> bool \<Rightarrow> py_error + array1 \<times> array1" where
  "get_plot_average_x_section obj apply_lut =
     (case get_rect_attr obj of None \<Rightarrow> Inl AttributeError
      | Some (x0, y0, x1, y1) \<Rightarrow>
        (let c0 = axes_to_canvas obj x0 y0; c1 = axes_to_canvas obj x1 y1;
             invert = (fst c0 > fst c1);
             xc0 = (if invert then fst c1 else fst c0);
             xc1 = (if invert then fst c0 else fst c1)
         in case obj_plot obj of None \<Rightarrow> Inl AttributeError
            | Some plot \<Rightarrow>
              (let ydir = axis_direction_left plot;
                   swap = ((ydir \<and> snd c0 > snd c1) \<or> (\<not> ydir \<and> snd c0 < snd c1));
                   yc0 = (if swap then snd c1 else snd c0);
                   yc1 = (if swap then snd c0 else snd c1)
               in sampled (get_image_data plot (xc0, yc0) (xc1, yc1) apply_lut) (\<lambda>data.
                    let y = mean_axis0 data;
                        y' = (if invert then rev y else y)
                    in (map Val (linspace x0 x1 (length y')), y')))))"

definition get_plot_average_y_section :: "target \<Rightarrow> bool \<Rightarrow> py_error + array1 \<times> array1" where
  "get_plot_average_y_section obj apply_lut =
     (case get_rect_attr obj of None \<Rightarrow> Inl AttributeError
      | Some (x0, y0, x1, y1) \<Rightarrow>
        (let c0 = axes_to_canvas obj x0 y0; c1 = axes_to_canvas obj x1 y1
         in case obj_plot obj of None \<Rightarrow> Inl AttributeError
            | Some plot \<Rightarrow>
              (let ydir = axis_direction_left plot;
                   invert = ((ydir \<and> snd c0 > snd c1) \<or> (\<not> ydir \<and> snd c0 < snd c1));
                   yc0 = (if invert then snd c1 else snd c0);
                   yc1 = (if invert then snd c0 else snd c1);
                   xswap = (fst c0 > fst c1);
                   xc0 = (if xswap then fst c1 else fst c0);
                   xc1 = (if xswap then fst c0 else fst c1)
               in sampled (get_image_data plot (xc0, yc0) (xc1, yc1) apply_lut) (\<lambda>data.
                    let y = mean_axis1 data;
                        x = map Val (linspace y0 y1 (length y))
                    in ((if invert then rev x else x), y)))))"

section \<open>The radial average\<close>

text \<open>
  \<open>a[lo:hi]\<close> on an axis of length \<open>n\<close>: a negative bound counts from the end, and both
  bounds are clipped to the axis. The result is the first index and the end index.
\<close>

definition slice_bounds :: "nat \<Rightarrow> int \<Rightarrow> int \<Rightarrow> nat \<times> nat" where
  "slice_bounds n lo hi =
     (let s = (if lo < 0 then max 0 (lo + int n) else min lo (int n));
          e = (if hi < 0 then max 0 (hi + int n) else min hi (int n))
      in (nat s, nat (max s e)))"

text \<open>
  \<open>r_data.mean()\<close> is computed in float64, also for an integer array. For a
  floating-point array it is idealised as the mean over the reals, as everywhere in this
  theory. For an integer array the idealisation would be visible (the mean of the single
  sample \<open>2^53 + 1\<close> is \<open>2^53\<close>), so the model only computes it where float64 is
  exact: while the samples are integers whose absolute values sum to less than \<open>2^53\<close>,
  every partial sum is an integer that float64 holds, the division is rounded correctly
  and cannot reach the next integer, and the conversion of the mean to an integer gives
  the truncated exact mean. Outside that range the float64 mean is the parameter
  \<open>float64_mean\<close> of the model.
\<close>

definition exact_in_float64 :: "npfloat list \<Rightarrow> bool" where
  "exact_in_float64 xs =
     (case vals xs of
        None \<Rightarrow> False
      | Some vs \<Rightarrow> list_all (\<lambda>v. of_int \<lfloor>v\<rfloor> = v) vs \<and> sum_list (map abs vs) < 2 ^ 53)"

definition shell_mean :: "(npfloat list \<Rightarrow> real) \<Rightarrow> dtype \<Rightarrow> npfloat list \<Rightarrow> npfloat" where
  "shell_mean float64_mean dt r_data =
     (if dt = Int64 \<and> \<not> exact_in_float64 r_data then Val (float64_mean r_data)
      else np_mean r_data)"

text \<open>
  \<open>np.array(ylist, dtype=data.dtype)\<close>: a mean is kept as it is in a floating-point array;
  in an integer array it is truncated toward zero, the conversion raising OverflowError
  for a value that no 64-bit integer holds and ValueError for not-a-number.
\<close>

definition astype :: "dtype \<Rightarrow> npfloat \<Rightarrow> py_error + npfloat" where
  "astype dt v =
     (case dt of
        Float64 \<Rightarrow> Inr v
      | Int64 \<Rightarrow>
          (case v of
             NaN \<Rightarrow> Inl ValueError
           | Val r \<Rightarrow>
               if r < - (2 ^ 63) \<or> 2 ^ 63 \<le> r then Inl OverflowError
               else Inr (Val (of_int (if r < 0 then \<lceil>r\<rceil> else \<lfloor>r\<rfloor>)))))"

primrec astype_all :: "dtype \<Rightarrow> npfloat list \<Rightarrow> py_error + npfloat list" where
  "astype_all dt [] = Inr []"
| "astype_all dt (v # vs) =
     bindE (astype dt v) (\<lambda>v'. bindE (astype_all dt vs) (\<lambda>vs'. Inr (v' # vs')))"

text \<open>
  The loop \<open>for i_r in np.arange(0, iradius+1)\<close>. \<open>shape\<close> is the shape of the slice
  \<open>data\<close>, \<open>(h, w)\<close> the shape of the array \<open>r\<close> of shell numbers; indexing \<open>data\<close> with the
  boolean array \<open>r == i_r\<close> raises IndexError when the shapes differ (as numpy does
  since version 1.13; the shapes agree whenever the corners lie inside the array), and
  selects in row-major order otherwise. \<open>mean\<close> is \<open>r_data.mean()\<close>.
\<close>

primrec radial_loop ::
  "(npfloat list \<Rightarrow> npfloat) \<Rightarrow> nat \<times> nat \<Rightarrow> (nat \<Rightarrow> nat \<Rightarrow> npfloat) \<Rightarrow> nat \<Rightarrow> nat \<Rightarrow>
   (nat \<Rightarrow> nat \<Rightarrow> int) \<Rightarrow> int list \<Rightarrow> npfloat list \<Rightarrow> py_error + npfloat list" where
  "radial_loop mean shape data h w r [] ylist = Inr ylist"
| "radial_loop mean shape data h w r (i_r # rest) ylist =
     (if shape \<noteq> (h, w) then Inl IndexError
      else let r_data = concat (map (\<lambda>i. map (data i) (List.filter (\<lambda>j. r i j = i_r) [0..<w])) [0..<h])
           in radial_loop mean shape data h w r rest
                (if length r_data > 0 then ylist @ [mean r_data] else ylist))"

definition radial_average ::
  "(npfloat list \<Rightarrow> real) \<Rightarrow> ndarray2 \<Rightarrow> int \<Rightarrow> int \<Rightarrow> int \<Rightarrow> int \<Rightarrow> int \<Rightarrow> int \<Rightarrow> int \<Rightarrow>
   py_error + array1" where
  "radial_average float64_mean orig_data ix0 iy0 ix1 iy1 ixc iyc iradius =
     (let ys = slice_bounds (nrows orig_data) iy0 iy1;
          xs = slice_bounds (ncols orig_data) ix0 ix1;
          data = (\<lambda>i j. elem orig_data (fst ys + i) (fst xs + j))
      in if iy1 - iy0 < 0 \<or> ix1 - ix0 < 0 then Inl ValueError
         else
           (let h = nat (iy1 - iy0); w = nat (ix1 - ix0);
                r = (\<lambda>i j. \<lfloor>sqrt (real_of_int ((int j - (ixc - ix0))\<^sup>2 + (int i - (iyc - iy0))\<^sup>2))
                              + 1 / 2\<rfloor>)
            in bindE (radial_loop (shell_mean float64_mean (arr_dtype orig_data))
                        (snd ys - fst ys, snd xs - fst xs) data h w r [0..iradius] [])
                 (\<lambda>ylist. astype_all (arr_dtype orig_data) ylist)))"

text \<open>
  The radial average in the words of the specification: the shell of a pixel of the
  sub-array bounded by the two corners is its rounded distance to the centre, and the
  profile holds, for each shell from 0 to the radius that has a member, the mean of its
  members.
\<close>

definition shell_of :: "int \<Rightarrow> int \<Rightarrow> int \<Rightarrow> int \<Rightarrow> int" where
  "shell_of cx cy px py = \<lfloor>sqrt (real_of_int ((px - cx)\<^sup>2 + (py - cy)\<^sup>2)) + 1 / 2\<rfloor>"

definition shell_members ::
  "ndarray2 \<Rightarrow> int \<Rightarrow> int \<Rightarrow> int \<Rightarrow> int \<Rightarrow> int \<Rightarrow> int \<Rightarrow> int \<Rightarrow> npfloat list" where
  "shell_members a ix0 iy0 ix1 iy1 cx cy r =
     concat (map (\<lambda>py. map (\<lambda>px. elem a (nat py) (nat px))
                          (List.filter (\<lambda>px. shell_of cx cy px py = r) [ix0..ix1 - 1]))
                 [iy0..iy1 - 1])"

definition shell_means ::
  "ndarray2 \<Rightarrow> int \<Rightarrow> int \<Rightarrow> int \<Rightarrow> int \<Rightarrow> int \<Rightarrow> int \<Rightarrow> int \<Rightarrow> npfloat list" where
  "shell_means a ix0 iy0 ix1 iy1 cx cy radius =
     map np_mean (List.filter (\<lambda>ms. ms \<noteq> [])
       (map (shell_members a ix0 iy0 ix1 iy1 cx cy) [0..radius]))"

section \<open>The radially-averaged section of an image\<close>

datatype axis_id = X_BOTTOM | Y_LEFT

text \<open>
  A source image (an item of \<open>guiqwt.image\<close>), as the module uses it: the four section
  methods, which may raise, the pixel lookup, the data with the mask of a masked array,
  the coordinate lookup, and the bounds of \<open>source.plot().axisScaleDiv(axis)\<close> when the
  image is on a plot.
\<close>

record source_image =
  get_xsection :: "real \<Rightarrow> bool \<Rightarrow> py_error + array1 \<times> array1"
  get_ysection :: "real \<Rightarrow> bool \<Rightarrow> py_error + array1 \<times> array1"
  get_average_xsection :: "real \<Rightarrow> real \<Rightarrow> real \<Rightarrow> real \<Rightarrow> bool \<Rightarrow> py_error + array1 \<times> array1"
  get_average_ysection :: "real \<Rightarrow> real \<Rightarrow> real \<Rightarrow> real \<Rightarrow> bool \<Rightarrow> py_error + array1 \<times> array1"
  get_closest_pixel_indexes :: "real \<Rightarrow> real \<Rightarrow> int \<times> int"
  img_data :: ndarray2
  img_mask :: "(nat \<Rightarrow> nat \<Rightarrow> bool) option"
  get_x_values :: "int \<Rightarrow> int \<Rightarrow> array1"
  src_axisScaleDiv :: "(axis_id \<Rightarrow> real \<times> real) option"

text \<open>
  The extension module \<open>guiqwt._ext.radialaverage\<close>: each routine fills the arrays
  \<open>ydata\<close> and \<open>ycount\<close> that the caller allocated with \<open>iradius + 1\<close> cells, so its
  result is given cell by cell.
\<close>

record radialaverage =
  radavg :: "ndarray2 \<Rightarrow> int \<Rightarrow> int \<Rightarrow> int \<Rightarrow> (nat \<Rightarrow> npfloat) \<times> (nat \<Rightarrow> npfloat)"
  radavg_mask :: "ndarray2 \<Rightarrow> (nat \<Rightarrow> nat \<Rightarrow> bool) \<Rightarrow> int \<Rightarrow> int \<Rightarrow> int \<Rightarrow>
                  (nat \<Rightarrow> npfloat) \<times> (nat \<Rightarrow> npfloat)"

fun np_sub :: "npfloat \<Rightarrow> npfloat \<Rightarrow> npfloat" where
  "np_sub (Val a) (Val b) = Val (a - b)"
| "np_sub _ _ = NaN"

definition compute_radial_section ::
  "radialaverage \<Rightarrow> source_image \<Rightarrow> real \<Rightarrow> real \<Rightarrow> real \<Rightarrow> real \<Rightarrow>
   (array1 \<Rightarrow> array1 \<Rightarrow> array1) option \<Rightarrow> array1 \<times> array1 \<times> array1 option" where
  "compute_radial_section ext item x0 y0 x1 y1 dyfunc =
     (case get_closest_pixel_indexes item x0 y0 of (ix0, iy0) \<Rightarrow>
      case get_closest_pixel_indexes item x1 y1 of (ix1, iy1) \<Rightarrow>
      case get_closest_pixel_indexes item (0.5 * (x0 + x1)) (0.5 * (y0 + y1)) of (ixc, iyc) \<Rightarrow>
      (let iradius = \<lfloor>0.5 * sqrt (0.5 * real_of_int ((ix1 - ix0)\<^sup>2)
                                    + 0.5 * real_of_int ((iy1 - iy0)\<^sup>2)) + 0.5\<rfloor>
       in if iradius = 0 then ([], [], Some [])
          else
            (let filled = (case img_mask item of
                             Some m \<Rightarrow> radavg_mask ext (img_data item) m iyc ixc iradius
                           | None \<Rightarrow> radavg ext (img_data item) iyc ixc iradius);
                 ydata = map (fst filled) [0..<nat (iradius + 1)];
                 ycount = map (snd filled) [0..<nat (iradius + 1)];
                 dydata = (case dyfunc of None \<Rightarrow> None | Some f \<Rightarrow> Some (f ydata ycount));
                 xdata = take (length ydata) (get_x_values item iyc (iyc + int (length ydata)));
                 xdata' = (case xdata of [] \<Rightarrow> [] | v # _ \<Rightarrow> map (\<lambda>u. np_sub u v) xdata)
             in (xdata', ydata, dydata))))"

section \<open>Cross-section items\<close>

text \<open>
  The classes of cross-section item. \<open>CrossSectionItem\<close> is the base class; the X and Y
  items override \<open>get_cross_section\<close> and \<open>update_scale\<close>, the radially-averaged item
  overrides \<open>update_curve_data\<close> and \<open>update_scale\<close>.
\<close>

datatype item_class =
  CrossSectionItem | XCrossSectionItem | YCrossSectionItem | RACrossSectionItem

text \<open>The arguments of the last \<open>set_data(x, y, dx, dy)\<close> of a curve.\<close>

type_synonym curve_data = "array1 \<times> array1 \<times> array1 option \<times> array1 option"

text \<open>
  A cross-section item. \<open>source\<close> is \<open>None\<close> until \<open>set_source_image\<close> stores a weak
  reference, given here by the identity of the image; \<open>item_attached\<close> tells whether
  \<open>self.plot()\<close> is a plot, and \<open>item_visible\<close> is what \<open>show()\<close> and \<open>hide()\<close> set.
\<close>

record cs_item =
  item_class :: item_class
  item_id :: nat
  perimage_mode :: bool
  autoscale_mode :: bool
  apply_lut :: bool
  source :: "nat option"
  item_attached :: bool
  item_visible :: bool
  item_data :: curve_data

text \<open>
  What lives outside the module: the image items and the markers and shapes that are
  alive, by identity (a weak reference to an identity that is not alive gives \<open>None\<close>),
  and the extension module.
\<close>

record world =
  images :: "nat \<Rightarrow> source_image option"
  objects :: "nat \<Rightarrow> target option"
  radialaverage_ext :: radialaverage

text \<open>
  The plot a curve draws on, as the items use it: whether it is visible, and the calls
  made on it (signals emitted, axis scales set, replots, autoscales), in order.
\<close>

datatype qt_call =
  Emit_CS_CURVE_CHANGED nat | SetAxisScale axis_id real real | Replot | DoAutoscale

record curve_plot =
  plot_visible :: bool
  plot_calls :: "qt_call list"

definition set_source_image :: "cs_item \<Rightarrow> nat \<Rightarrow> cs_item" where
  "set_source_image self src = self\<lparr>source := Some src\<rparr>"

definition get_source_image :: "world \<Rightarrow> cs_item \<Rightarrow> source_image option" where
  "get_source_image w self = (case source self of None \<Rightarrow> None | Some h \<Rightarrow> images w h)"

text \<open>\<open>_inverted\<close>: \<open>None\<close> in the base class, \<open>False\<close> for the X item, \<open>True\<close> for the Y item.\<close>

definition inverted :: "item_class \<Rightarrow> bool option" where
  "inverted c =
     (case c of XCrossSectionItem \<Rightarrow> Some False | YCrossSectionItem \<Rightarrow> Some True | _ \<Rightarrow> None)"

text \<open>A call of a method of \<open>source\<close>, which raises AttributeError when \<open>source\<close> is \<open>None\<close>.\<close>

definition on_source ::
  "source_image option \<Rightarrow> (source_image \<Rightarrow> py_error + 'a) \<Rightarrow> py_error + 'a" where
  "on_source src f = (case src of None \<Rightarrow> Inl AttributeError | Some s \<Rightarrow> f s)"

definition get_cross_section :: "world \<Rightarrow> cs_item \<Rightarrow> target \<Rightarrow> py_error + array1 \<times> array1" where
  "get_cross_section w self obj =
     (case item_class self of
        XCrossSectionItem \<Rightarrow>
          (let src = get_source_image w self
           in case get_rectangular_area obj of
                None \<Rightarrow>
                  bindE (get_object_coordinates obj) (\<lambda>(x0', y0).
                    if perimage_mode self
                    then on_source src (\<lambda>s. get_xsection s y0 (apply_lut self))
                    else get_plot_x_section obj (apply_lut self))
              | Some (x0, y0, x1, y1) \<Rightarrow>
                  if perimage_mode self
                  then on_source src (\<lambda>s. get_average_xsection s x0 y0 x1 y1 (apply_lut self))
                  else get_plot_average_x_section obj (apply_lut self))
      | YCrossSectionItem \<Rightarrow>
          (let src = get_source_image w self
           in case get_rectangular_area obj of
                None \<Rightarrow>
                  bindE (get_object_coordinates obj) (\<lambda>(x0, y0').
                    if perimage_mode self
                    then on_source src (\<lambda>s. get_ysection s x0 (apply_lut self))
                    else get_plot_y_section obj (apply_lut self))
              | Some (x0, y0, x1, y1) \<Rightarrow>
                  if perimage_mode self
                  then on_source src (\<lambda>s. get_average_ysection s x0 y0 x1 y1 (apply_lut self))
                  else get_plot_average_y_section obj (apply_lut self))
      | _ \<Rightarrow> Inl NotImplementedError)"

text \<open>\<open>secty.size == 0 or np.all(np.isnan(secty))\<close>.\<close>

definition empty_or_all_nan :: "array1 \<Rightarrow> bool" where
  "empty_or_all_nan secty = (length secty = 0 \<or> list_all isnan secty)"

text \<open>\<open>CrossSectionItem.update_curve_data\<close>, which the X and Y items inherit.\<close>

definition base_update_curve_data :: "world \<Rightarrow> cs_item \<Rightarrow> target \<Rightarrow> py_error + cs_item" where
  "base_update_curve_data w self obj =
     bindE (get_cross_section w self obj) (\<lambda>(sectx, secty).
       let sect = (if empty_or_all_nan secty then ([], []) else (sectx, secty))
       in if inverted (item_class self) = Some True
          then Inr (self\<lparr>item_data := (snd sect, fst sect, None, None)\<rparr>)
          else Inr (self\<lparr>item_data := (fst sect, snd sect, None, None)\<rparr>))"

text \<open>\<open>RACrossSectionItem.update_curve_data\<close>.\<close>

definition ra_update_curve_data :: "world \<Rightarrow> cs_item \<Rightarrow> target \<Rightarrow> py_error + cs_item" where
  "ra_update_curve_data w self obj =
     (let src = get_source_image w self
      in case get_rectangular_area obj of
           Some (x0, y0, x1, y1) \<Rightarrow>
             on_source src (\<lambda>s.
               case compute_radial_section (radialaverage_ext w) s x0 y0 x1 y1 None of
                 (sectx, secty, sectdy) \<Rightarrow>
                   if empty_or_all_nan secty
                   then Inr (self\<lparr>item_data := ([], [], None, None)\<rparr>)
                   else Inr (self\<lparr>item_data := (sectx, secty, None, sectdy)\<rparr>))
         | None \<Rightarrow> Inr self)"

definition update_curve_data :: "world \<Rightarrow> cs_item \<Rightarrow> target \<Rightarrow> py_error + cs_item" where
  "update_curve_data w self obj =
     (if item_class self = RACrossSectionItem then ra_update_curve_data w self obj
      else base_update_curve_data w self obj)"

text \<open>
  \<open>update_scale\<close>: not implemented in the base class, nothing for the radially-averaged
  item; the X and Y items copy the bounds of their axis from the plot of the source.
\<close>

definition update_scale :: "world \<Rightarrow> curve_plot \<Rightarrow> cs_item \<Rightarrow> py_error + curve_plot" where
  "update_scale w plot self =
     (case item_class self of
        CrossSectionItem \<Rightarrow> Inl NotImplementedError
      | RACrossSectionItem \<Rightarrow> Inr plot
      | c \<Rightarrow>
          (let axis = (if c = XCrossSectionItem then X_BOTTOM else Y_LEFT)
           in on_source (get_source_image w self) (\<lambda>s.
                case src_axisScaleDiv s of
                  None \<Rightarrow> Inl AttributeError
                | Some sdiv \<Rightarrow>
                    Inr (plot\<lparr>plot_calls := plot_calls plot @
                           [SetAxisScale axis (fst (sdiv axis)) (snd (sdiv axis)), Replot]\<rparr>))))"

text \<open>
  \<open>update_item\<close>, on the plot \<open>self.plot()\<close> returned (\<open>None\<close> when the item is on no plot).
  The result is the plot and the item after the call.
\<close>

definition update_item ::
  "world \<Rightarrow> curve_plot option \<Rightarrow> cs_item \<Rightarrow> target \<Rightarrow> py_error + curve_plot option \<times> cs_item" where
  "update_item w plot self obj =
     (case plot of
        None \<Rightarrow> Inr (plot, self)
      | Some p \<Rightarrow>
          (let src = get_source_image w self
           in if src = None \<or> \<not> plot_visible p then Inr (plot, self)
              else bindE (update_curve_data w self obj) (\<lambda>self'.
                   let p' = p\<lparr>plot_calls := plot_calls p @ [Emit_CS_CURVE_CHANGED (item_id self')]\<rparr>
                   in if \<not> autoscale_mode self'
                      then bindE (update_scale w p' self') (\<lambda>p''. Inr (Some p'', self'))
                      else Inr (Some p', self'))))"

section \<open>The cross-section panel\<close>

text \<open>
  The state of a \<open>CrossSectionPlot\<close>: its three modes, the weak reference \<open>last_obj\<close> (the
  identity of the object), the dictionary \<open>known_items\<close> from image to curve in the order
  in which it is iterated, the dictionary \<open>_shapes\<close> from plot to the list of its
  registered shapes, the visibility of the label, and the plot itself.
\<close>

record cs_plot =
  cs_perimage_mode :: bool
  cs_autoscale_mode :: bool
  cs_apply_lut :: bool
  last_obj :: "nat option"
  known_items :: "(nat \<times> cs_item) list"
  shapes :: "(nat \<times> nat list) list"
  label_visible :: bool
  qwt :: curve_plot

fun unregister_in :: "(nat \<times> nat list) list \<Rightarrow> nat \<Rightarrow> (nat \<times> nat list) list" where
  "unregister_in [] shape = []"
| "unregister_in ((plot, shs) # rest) shape =
     (if shape \<in> set shs then (plot, remove1 shape shs) # rest
      else (plot, shs) # unregister_in rest shape)"

definition unregister_shape :: "cs_plot \<Rightarrow> nat \<Rightarrow> cs_plot" where
  "unregister_shape self shape = self\<lparr>shapes := unregister_in (shapes self) shape\<rparr>"


definition get_last_obj :: "world \<Rightarrow> cs_plot \<Rightarrow> (nat \<times> target) option" where
  "get_last_obj w self =
     (case last_obj self of
        None \<Rightarrow> None
      | Some h \<Rightarrow> (case objects w h of None \<Rightarrow> None | Some t \<Rightarrow> Some (h, t)))"

text \<open>
  The loop of \<open>update_plot\<close> over \<open>enumerate(self.known_items.iteritems())\<close>, from position
  \<open>index\<close> on. A curve of the panel draws on the panel's own plot; an exception raised by
  \<open>update_item\<close> leaves the loop.
\<close>

fun update_curves ::
  "world \<Rightarrow> bool \<Rightarrow> bool \<Rightarrow> bool \<Rightarrow> target \<Rightarrow> nat \<Rightarrow> (nat \<times> cs_item) list \<Rightarrow> curve_plot \<Rightarrow>
   py_error + (nat \<times> cs_item) list \<times> curve_plot" where
  "update_curves w pim asm lut obj index [] plot = Inr ([], plot)"
| "update_curves w pim asm lut obj index ((item, curve) # rest) plot =
     (if \<not> pim \<and> index > 0
      then bindE (update_curves w pim asm lut obj (Suc index) rest plot) (\<lambda>(rest', plot').
             Inr ((item, curve\<lparr>item_visible := False\<rparr>) # rest', plot'))
      else
        (let curve1 = curve\<lparr>item_visible := True, perimage_mode := pim,
                              autoscale_mode := asm, apply_lut := lut\<rparr>
         in bindE (update_item w (if item_attached curve1 then Some plot else None) curve1 obj)
              (\<lambda>(plot1, curve2).
                 bindE (update_curves w pim asm lut obj (Suc index) rest
                          (case plot1 of None \<Rightarrow> plot | Some p \<Rightarrow> p)) (\<lambda>(rest', plot').
                 Inr ((item, curve2) # rest', plot')))))"

text \<open>
  \<open>update_plot(obj)\<close>: \<open>obj\<close> is \<open>None\<close> or an object, given with its identity.
\<close>

definition update_plot :: "world \<Rightarrow> cs_plot \<Rightarrow> (nat \<times> target) option \<Rightarrow> py_error + cs_plot" where
  "update_plot w self obj =
     (case (case obj of
              None \<Rightarrow> (case get_last_obj w self of None \<Rightarrow> None | Some ob \<Rightarrow> Some (self, ob))
            | Some ob \<Rightarrow> Some (self\<lparr>last_obj := Some (fst ob)\<rparr>, ob)) of
        None \<Rightarrow> Inr self
      | Some (self1, (h, t)) \<Rightarrow>
          if obj_plot t = None then Inr (unregister_shape self1 h)
          else
            (let self2 = (if label_visible self1 then self1\<lparr>label_visible := False\<rparr> else self1)
             in bindE (update_curves w (cs_perimage_mode self2) (cs_autoscale_mode self2)
                         (cs_apply_lut self2) t 0 (known_items self2) (qwt self2))
                  (\<lambda>(items', plot').
                     let self3 = self2\<lparr>known_items := items', qwt := plot'\<rparr>
                     in if cs_autoscale_mode self3
                        then Inr (self3\<lparr>qwt := plot'\<lparr>plot_calls := plot_calls plot' @ [DoAutoscale]\<rparr>\<rparr>)
                        else Inr self3)))"

definition marker_changed :: "world \<Rightarrow> cs_plot \<Rightarrow> nat \<times> target \<Rightarrow> py_error + cs_plot" where
  "marker_changed w self marker = update_plot w self (Some marker)"


definition toggle_perimage_mode :: "world \<Rightarrow> cs_plot \<Rightarrow> bool \<Rightarrow> py_error + cs_plot" where
  "toggle_perimage_mode w self state = update_plot w (self\<lparr>cs_perimage_mode := state\<rparr>) None"

definition toggle_autoscale :: "world \<Rightarrow> cs_plot \<Rightarrow> bool \<Rightarrow> py_error + cs_plot" where
  "toggle_autoscale w self state = update_plot w (self\<lparr>cs_autoscale_mode := state\<rparr>) None"

definition toggle_apply_lut :: "world \<Rightarrow> cs_plot \<Rightarrow> bool \<Rightarrow> py_error + cs_plot" where
  "toggle_apply_lut w self state = update_plot w (self\<lparr>cs_apply_lut := state\<rparr>) None"

section \<open>Concrete plots, objects and items\<close>

text \<open>
  Small inhabitants of the model, on which the functions are evaluated:
  \<^item> a marker and a rectangle whose canvas coordinates are their axis coordinates;
  \<^item> an extension module whose routines fill zeros;
  \<^item> an item as its constructor leaves it, attached, with a curve already drawn;
  \<^item> an image whose four section methods return a given result, and whose closest pixel
    is the rounded coordinate;
  \<^item> worlds with nothing alive, with one image alive, or with one image and given objects;
  \<^item> a panel with autoscale on and the look-up table off, as its constructor leaves them,
    in a given state;
  \<^item> a plot whose sampler fails with ValueError on an empty region and otherwise returns an
    array of the requested (truncated) size, each sample being the data x of its column;
  \<^item> the same plot seen with the bottom axis reversed (canvas x is 4 minus data x), and a
    rectangle on it;
  \<^item> arrays given by a function or by their rows.
\<close>

definition marker_at :: "real \<Rightarrow> real \<Rightarrow> image_plot option \<Rightarrow> target" where
  "marker_at x y plot =
     \<lparr>get_rect_attr = None, get_pos_attr = None, xyValue_attr = Some (x, y), obj_plot = plot,
      axes_to_canvas = (\<lambda>u v. (u, v)), canvas_to_axes = (\<lambda>p. p)\<rparr>"

definition rectangle_at :: "real \<Rightarrow> real \<Rightarrow> real \<Rightarrow> real \<Rightarrow> image_plot option \<Rightarrow> target" where
  "rectangle_at x0 y0 x1 y1 plot =
     \<lparr>get_rect_attr = Some (x0, y0, x1, y1), get_pos_attr = None, xyValue_attr = None,
      obj_plot = plot, axes_to_canvas = (\<lambda>u v. (u, v)), canvas_to_axes = (\<lambda>p. p)\<rparr>"

definition no_ext :: radialaverage where
  "no_ext = \<lparr>radavg = (\<lambda>d iyc ixc r. (\<lambda>k. Val 0, \<lambda>k. Val 0)),
             radavg_mask = (\<lambda>d m iyc ixc r. (\<lambda>k. Val 0, \<lambda>k. Val 0))\<rparr>"

definition empty_world :: world where
  "empty_world = \<lparr>images = (\<lambda>h. None), objects = (\<lambda>h. None), radialaverage_ext = no_ext\<rparr>"

definition new_item :: "item_class \<Rightarrow> nat \<Rightarrow> cs_item" where
  "new_item c n =
     \<lparr>item_class = c, item_id = n, perimage_mode = True, autoscale_mode = True,
      apply_lut = False, source = None, item_attached = True, item_visible = True,
      item_data = ([Val 1, Val 2], [Val 3, Val 4], None, None)\<rparr>"

definition flat_array :: "dtype \<Rightarrow> nat \<Rightarrow> nat \<Rightarrow> (nat \<Rightarrow> nat \<Rightarrow> real) \<Rightarrow> ndarray2" where
  "flat_array dt h w f = \<lparr>arr_dtype = dt, nrows = h, ncols = w, elem = (\<lambda>i j. Val (f i j))\<rparr>"

definition image_with :: "(py_error + array1 \<times> array1) \<Rightarrow> source_image" where
  "image_with section =
     \<lparr>get_xsection = (\<lambda>y lut. section), get_ysection = (\<lambda>x lut. section),
      get_average_xsection = (\<lambda>x0 y0 x1 y1 lut. section),
      get_average_ysection = (\<lambda>x0 y0 x1 y1 lut. section),
      get_closest_pixel_indexes = (\<lambda>x y. (\<lfloor>x + 1 / 2\<rfloor>, \<lfloor>y + 1 / 2\<rfloor>)),
      img_data = flat_array Float64 4 4 (\<lambda>i j. 5), img_mask = None,
      get_x_values = (\<lambda>i0 i1. map (\<lambda>k. Val (real_of_int k)) [i0..i1 - 1]),
      src_axisScaleDiv = None\<rparr>"

definition world_with :: "nat \<Rightarrow> source_image \<Rightarrow> world" where
  "world_with h img =
     \<lparr>images = (\<lambda>k. if k = h then Some img else None), objects = (\<lambda>k. None),
      radialaverage_ext = no_ext\<rparr>"

definition living_world :: "nat \<Rightarrow> source_image \<Rightarrow> (nat \<Rightarrow> target option) \<Rightarrow> world" where
  "living_world h img objs =
     \<lparr>images = (\<lambda>k. if k = h then Some img else None), objects = objs,
      radialaverage_ext = no_ext\<rparr>"

definition panel_state ::
  "bool \<Rightarrow> nat option \<Rightarrow> bool \<Rightarrow> (nat \<times> nat list) list \<Rightarrow> (nat \<times> cs_item) list \<Rightarrow>
   qt_call list \<Rightarrow> cs_plot" where
  "panel_state pim lo lv shs items calls =
     \<lparr>cs_perimage_mode = pim, cs_autoscale_mode = True, cs_apply_lut = False,
      last_obj = lo, known_items = items, shapes = shs, label_visible = lv,
      qwt = \<lparr>plot_visible = True, plot_calls = calls\<rparr>\<rparr>"

definition transform_of :: "real \<Rightarrow> real \<Rightarrow> tr_params" where
  "transform_of dx dy =
     \<lparr>tr_x0 = 0, tr_y0 = 0, tr_angle = 0, tr_dx = dx, tr_dy = dy,
      tr_hflip = False, tr_vflip = False\<rparr>"

definition plot_with :: "image_item list \<Rightarrow> bool \<Rightarrow> image_plot" where
  "plot_with items ydir =
     \<lparr>plot_items = items, canvasMap_bottom = (0, 4), canvasMap_left = (0, 4),
      axis_direction_left = ydir,
      get_plot_source_rect = (\<lambda>p0 p1. (fst p0, snd p0, \<bar>fst p1 - fst p0\<bar>, \<bar>snd p1 - snd p0\<bar>)),
      get_image_from_plot = (\<lambda>p0 p1 w h lut.
         if w \<le> 0 \<or> h \<le> 0 then Inl ValueError
         else Inr (flat_array Float64 (nat \<lfloor>h\<rfloor>) (nat \<lfloor>w\<rfloor>)
                     (\<lambda>i j. min (fst p0) (fst p1) + real j)))\<rparr>"

definition plain_image :: image_item where
  "plain_image = \<lparr>is_ImageItem = True, is_XYImageItem = False, tr_transform = None\<rparr>"

definition xy_image :: image_item where
  "xy_image = \<lparr>is_ImageItem = True, is_XYImageItem = True, tr_transform = None\<rparr>"

definition array_of_rows :: "dtype \<Rightarrow> real list list \<Rightarrow> ndarray2" where
  "array_of_rows dt rows =
     \<lparr>arr_dtype = dt, nrows = length rows,
      ncols = (case rows of [] \<Rightarrow> 0 | r # _ \<Rightarrow> length r),
      elem = (\<lambda>i j. Val (rows ! i ! j))\<rparr>"

definition mirrored_rectangle_at ::
  "real \<Rightarrow> real \<Rightarrow> real \<Rightarrow> real \<Rightarrow> image_plot option \<Rightarrow> target" where
  "mirrored_rectangle_at x0 y0 x1 y1 plot =
     \<lparr>get_rect_attr = Some (x0, y0, x1, y1), get_pos_attr = None, xyValue_attr = None,
      obj_plot = plot, axes_to_canvas = (\<lambda>u v. (4 - u, v)),
      canvas_to_axes = (\<lambda>p. (4 - fst p, snd p))\<rparr>"

definition mirrored_plot_with :: "image_item list \<Rightarrow> bool \<Rightarrow> image_plot" where
  "mirrored_plot_with items ydir =
     \<lparr>plot_items = items, canvasMap_bottom = (0, 4), canvasMap_left = (0, 4),
      axis_direction_left = ydir,
      get_plot_source_rect = (\<lambda>p0 p1. (fst p0, snd p0, \<bar>fst p1 - fst p0\<bar>, \<bar>snd p1 - snd p0\<bar>)),
      get_image_from_plot = (\<lambda>p0 p1 w h lut.
         if w \<le> 0 \<or> h \<le> 0 then Inl ValueError
         else Inr (flat_array Float64 (nat \<lfloor>h\<rfloor>) (nat \<lfloor>w\<rfloor>)
                     (\<lambda>i j. 4 - min (fst p0) (fst p1) - real j - 1)))\<rparr>"

section \<open>Properties\<close>

text \<open>
  Claim C10. A radially-averaged item bound to an object that exposes no rectangular area
  (a point marker) is left as it was by \<open>update_curve_data\<close>: no exception, and the
  item, with the curve it displays, is unchanged.
\<close>

theorem ra_point_marker_keeps_curve:
  assumes "item_class self = RACrossSectionItem" and "get_rectangular_area obj = None"
  shows "update_curve_data w self obj = Inr self"
  using assms by (simp add: update_curve_data_def ra_update_curve_data_def)

theorem ra_point_marker_keeps_curve_witness:
  "item_class (new_item RACrossSectionItem 0) = RACrossSectionItem
   \<and> get_rectangular_area (marker_at 5 5 None) = None
   \<and> update_curve_data empty_world (new_item RACrossSectionItem 0) (marker_at 5 5 None)
       = Inr (new_item RACrossSectionItem 0)
   \<and> item_data (new_item RACrossSectionItem 0) = ([Val 1, Val 2], [Val 3, Val 4], None, None)"
  using ra_point_marker_keeps_curve [of "new_item RACrossSectionItem 0" "marker_at 5 5 None" empty_world]
  by (simp add: new_item_def marker_at_def get_rectangular_area_def)

text \<open>
  Claim C6. \<open>update_item\<close> does nothing when the item has no source image (no weak
  reference was stored, or the image it refers to is not alive any more), when the item is
  on no plot, or when its plot is not visible: it returns without an exception, and the
  item (its curve data) and the plot (the signals emitted on it) are unchanged.
\<close>

theorem update_item_stale_noop:
  assumes "source self = None \<or> (\<exists>h. source self = Some h \<and> images w h = None)
           \<or> plot = None \<or> (\<exists>p. plot = Some p \<and> \<not> plot_visible p)"
  shows "update_item w plot self obj = Inr (plot, self)"
  using assms by (auto simp: update_item_def get_source_image_def split: option.splits)

theorem update_item_stale_noop_witness:
  "source (set_source_image (new_item XCrossSectionItem 0) 7) = Some 7
   \<and> images empty_world 7 = None
   \<and> update_item empty_world (Some \<lparr>plot_visible = True, plot_calls = []\<rparr>)
        (set_source_image (new_item XCrossSectionItem 0) 7) (marker_at 5 5 None)
      = Inr (Some \<lparr>plot_visible = True, plot_calls = []\<rparr>,
             set_source_image (new_item XCrossSectionItem 0) 7)"
  using update_item_stale_noop [of "set_source_image (new_item XCrossSectionItem 0) 7" empty_world
      "Some \<lparr>plot_visible = True, plot_calls = []\<rparr>" "marker_at 5 5 None"]
  by (simp add: set_source_image_def new_item_def empty_world_def)

text \<open>
  Claim C5. When \<open>get_cross_section\<close> returns the arrays \<open>(sectx, secty)\<close>,
  \<open>update_curve_data\<close> sets the curve to two empty arrays if \<open>secty\<close> is empty or holds
  only not-a-number, and to the arrays as extracted otherwise, \<open>x\<close> and \<open>y\<close> exchanged
  when the item's \<open>_inverted\<close> flag is set (the Y item).
\<close>

theorem update_curve_data_fallback:
  assumes "get_cross_section w self obj = Inr (sectx, secty)"
  shows "update_curve_data w self obj =
           Inr (self\<lparr>item_data :=
             (if secty = [] \<or> (\<forall>v \<in> set secty. v = NaN) then ([], [], None, None)
              else if inverted (item_class self) = Some True then (secty, sectx, None, None)
              else (sectx, secty, None, None))\<rparr>)"
proof -
  have cls: "item_class self \<noteq> RACrossSectionItem"
    using assms by (auto simp: get_cross_section_def)
  have nan: "list_all isnan secty = (\<forall>v \<in> set secty. v = NaN)"
    by (induction secty) (auto elim: isnan.elims)
  show ?thesis
    using assms cls
    by (simp add: update_curve_data_def base_update_curve_data_def bindE_def
        empty_or_all_nan_def nan)
qed

theorem update_curve_data_fallback_witness:
  "get_cross_section (world_with 7 (image_with (Inr ([Val 0, Val 1], [Val 5, NaN]))))
      (set_source_image (new_item YCrossSectionItem 0) 7) (marker_at 5 5 None)
     = Inr ([Val 0, Val 1], [Val 5, NaN])
   \<and> item_data (set_source_image (new_item YCrossSectionItem 0) 7)
        = ([Val 1, Val 2], [Val 3, Val 4], None, None)
   \<and> update_curve_data (world_with 7 (image_with (Inr ([Val 0, Val 1], [Val 5, NaN]))))
        (set_source_image (new_item YCrossSectionItem 0) 7) (marker_at 5 5 None)
      = Inr ((set_source_image (new_item YCrossSectionItem 0) 7)
               \<lparr>item_data := ([Val 5, NaN], [Val 0, Val 1], None, None)\<rparr>)"
proof -
  have g: "get_cross_section (world_with 7 (image_with (Inr ([Val 0, Val 1], [Val 5, NaN]))))
      (set_source_image (new_item YCrossSectionItem 0) 7) (marker_at 5 5 None)
     = Inr ([Val 0, Val 1], [Val 5, NaN])"
    by (simp add: get_cross_section_def get_source_image_def set_source_image_def new_item_def
        world_with_def image_with_def marker_at_def get_rectangular_area_def
        get_object_coordinates_def bindE_def on_source_def)
  show ?thesis
    using update_curve_data_fallback [OF g] g
    by (simp add: set_source_image_def new_item_def inverted_def)
qed

lemma update_plot_reuses_last:
  assumes "last_obj self = Some h" and "objects w h = Some t"
  shows "update_plot w self None = update_plot w self (Some (h, t))"
proof -
  have g: "get_last_obj w self = Some (h, t)"
    using assms by (simp add: get_last_obj_def)
  have s: "self\<lparr>last_obj := Some h\<rparr> = self"
    using assms(1) by simp
  show ?thesis
    by (simp add: update_plot_def g s)
qed











lemma py_max_Max:
  assumes "xs \<noteq> []"
  shows "py_max xs = Max (set xs)"
proof (cases xs)
  case Nil
  with assms show ?thesis by simp
next
  case (Cons a list)
  have "Max (set (a # list)) = fold max list a"
    by (rule Max.set_eq_fold)
  then show ?thesis
    using Cons by (simp add: py_max_def)
qed

text \<open>
  Claim C9. When the plot holds at least one eligible image item (an \<open>ImageItem\<close> that
  is no \<open>XYImageItem\<close>) with a transform, \<open>get_image_data\<close> asks \<open>get_image_from_plot\<close>
  for the width of the source rectangle divided by the largest \<open>dx\<close> and its height
  divided by the largest \<open>dy\<close> over the transforms of all eligible items; a largest scale
  of zero raises ZeroDivisionError instead.
\<close>

theorem get_image_data_scale_correction:
  assumes tr: "\<exists>item \<in> set (plot_items plot).
                 is_ImageItem item \<and> \<not> is_XYImageItem item \<and> tr_transform item \<noteq> None"
    and rect: "get_plot_source_rect plot p0 p1 = (src_x, src_y, src_w, src_h)"
  defines "trs \<equiv> {t. \<exists>item \<in> set (plot_items plot).
                     is_ImageItem item \<and> \<not> is_XYImageItem item \<and> tr_transform item = Some t}"
  shows "get_image_data plot p0 p1 lut =
           (if Max (tr_dx ` trs) = 0 \<or> Max (tr_dy ` trs) = 0 then Inl ZeroDivisionError
            else case get_image_from_plot plot p0 p1
                        (src_w / Max (tr_dx ` trs)) (src_h / Max (tr_dy ` trs)) lut of
                   Inl e \<Rightarrow> Inl e
                 | Inr data \<Rightarrow> Inr (Some data))"
proof -
  define items where
    "items = List.filter (\<lambda>item. is_ImageItem item \<and> \<not> is_XYImageItem item) (plot_items plot)"
  define ps where "ps = List.map_filter tr_transform items"
  have set_ps: "set ps = trs"
  proof
    show "set ps \<subseteq> trs"
      by (auto simp: ps_def items_def trs_def List.map_filter_def)
    show "trs \<subseteq> set ps"
    proof
      fix t
      assume "t \<in> trs"
      then obtain item where "item \<in> set items" and "tr_transform item = Some t"
        by (auto simp: trs_def items_def)
      then have "t = the (tr_transform item)" and "tr_transform item \<noteq> None"
        by simp_all
      with \<open>item \<in> set items\<close> show "t \<in> set ps"
        unfolding ps_def List.map_filter_def by (auto simp: image_iff)
    qed
  qed
  have ne: "ps \<noteq> []"
    using tr set_ps by (auto simp: trs_def)
  have items_ne: "items \<noteq> []"
    using ne by (auto simp: ps_def List.map_filter_def)
  have mx: "py_max (map tr_dx ps) = Max (tr_dx ` trs)"
    using ne by (simp add: py_max_Max set_ps)
  have my: "py_max (map tr_dy ps) = Max (tr_dy ` trs)"
    using ne by (simp add: py_max_Max set_ps)
  have "get_image_data plot p0 p1 lut =
          bindE (py_truediv src_w (py_max (map tr_dx ps))) (\<lambda>src_w'.
          bindE (py_truediv src_h (py_max (map tr_dy ps))) (\<lambda>src_h'.
          bindE (get_image_from_plot plot p0 p1 src_w' src_h' lut) (\<lambda>data.
          Inr (Some data))))"
    using items_ne ne rect
    by (simp add: get_image_data_def Let_def items_def [symmetric] ps_def [symmetric])
  then show ?thesis
    by (simp add: mx my py_truediv_def bindE_def)
qed

theorem get_image_data_scale_correction_witness:
  "(\<exists>item \<in> set (plot_items (plot_with
        [\<lparr>is_ImageItem = True, is_XYImageItem = False, tr_transform = None\<rparr>,
         \<lparr>is_ImageItem = True, is_XYImageItem = False, tr_transform = Some (transform_of 2 4)\<rparr>,
         \<lparr>is_ImageItem = True, is_XYImageItem = True, tr_transform = Some (transform_of 8 8)\<rparr>,
         \<lparr>is_ImageItem = True, is_XYImageItem = False, tr_transform = Some (transform_of 4 1)\<rparr>]
        False)).
      is_ImageItem item \<and> \<not> is_XYImageItem item \<and> tr_transform item \<noteq> None)
   \<and> get_image_data (plot_with
        [\<lparr>is_ImageItem = True, is_XYImageItem = False, tr_transform = None\<rparr>,
         \<lparr>is_ImageItem = True, is_XYImageItem = False, tr_transform = Some (transform_of 2 4)\<rparr>,
         \<lparr>is_ImageItem = True, is_XYImageItem = True, tr_transform = Some (transform_of 8 8)\<rparr>,
         \<lparr>is_ImageItem = True, is_XYImageItem = False, tr_transform = Some (transform_of 4 1)\<rparr>]
        False) (0, 0) (8, 8) False
      = Inr (Some (flat_array Float64 2 2 (\<lambda>i j. real j)))"
proof -
  define plot where "plot = plot_with
        [\<lparr>is_ImageItem = True, is_XYImageItem = False, tr_transform = None\<rparr>,
         \<lparr>is_ImageItem = True, is_XYImageItem = False, tr_transform = Some (transform_of 2 4)\<rparr>,
         \<lparr>is_ImageItem = True, is_XYImageItem = True, tr_transform = Some (transform_of 8 8)\<rparr>,
         \<lparr>is_ImageItem = True, is_XYImageItem = False, tr_transform = Some (transform_of 4 1)\<rparr>]
        False"
  have tr: "\<exists>item \<in> set (plot_items plot).
              is_ImageItem item \<and> \<not> is_XYImageItem item \<and> tr_transform item \<noteq> None"
    by (simp add: plot_def plot_with_def)
  have rect: "get_plot_source_rect plot (0, 0) (8, 8) = (0, 0, 8, 8)"
    by (simp add: plot_def plot_with_def)
  have trs: "{t. \<exists>item \<in> set (plot_items plot).
                is_ImageItem item \<and> \<not> is_XYImageItem item \<and> tr_transform item = Some t}
             = {transform_of 2 4, transform_of 4 1}"
    by (auto simp: plot_def plot_with_def)
  have "get_image_data plot (0, 0) (8, 8) False = Inr (Some (flat_array Float64 2 2 (\<lambda>i j. real j)))"
    using get_image_data_scale_correction [OF tr rect, of False]
    unfolding trs by (simp add: transform_of_def plot_def plot_with_def)
  with tr show ?thesis
    unfolding plot_def by simp
qed

text \<open>
  Claim C4. \<open>compute_radial_section\<close> takes the pixel indices of the two corners and of
  the midpoint of the corners, and the radius
  \<open>floor(0.5 * sqrt(0.5 * dx\<^sup>2 + 0.5 * dy\<^sup>2) + 0.5)\<close> of the index deltas. A radius of zero
  gives three empty arrays, and the radius is zero exactly when \<open>dx\<^sup>2 + dy\<^sup>2 < 2\<close>;
  otherwise the profile holds the \<open>radius + 1\<close> cells that the extension routine filled for
  the centre pixel and the radius.
\<close>

theorem compute_radial_section_radius:
  assumes "get_closest_pixel_indexes item x0 y0 = (ix0, iy0)"
    and "get_closest_pixel_indexes item x1 y1 = (ix1, iy1)"
    and "get_closest_pixel_indexes item ((x0 + x1) / 2) ((y0 + y1) / 2) = (ixc, iyc)"
  defines "iradius \<equiv> \<lfloor>1 / 2 * sqrt (1 / 2 * real_of_int ((ix1 - ix0)\<^sup>2)
                                       + 1 / 2 * real_of_int ((iy1 - iy0)\<^sup>2)) + 1 / 2\<rfloor>"
  shows "(iradius = 0 \<longrightarrow>
            compute_radial_section ext item x0 y0 x1 y1 dyfunc = ([], [], Some []))
       \<and> (iradius = 0 \<longleftrightarrow> (ix1 - ix0)\<^sup>2 + (iy1 - iy0)\<^sup>2 < 2)
       \<and> (iradius \<noteq> 0 \<longrightarrow>
            fst (snd (compute_radial_section ext item x0 y0 x1 y1 dyfunc))
              = map (fst (case img_mask item of
                            Some m \<Rightarrow> radavg_mask ext (img_data item) m iyc ixc iradius
                          | None \<Rightarrow> radavg ext (img_data item) iyc ixc iradius))
                    [0..<nat (iradius + 1)])"
proof -
  define n where "n = (ix1 - ix0)\<^sup>2 + (iy1 - iy0)\<^sup>2"
  define a where "a = 1 / 2 * sqrt (1 / 2 * real_of_int n)"
  have n0: "0 \<le> n" by (simp add: n_def)
  have a0: "0 \<le> a" using n0 by (simp add: a_def)
  have rad: "iradius = \<lfloor>a + 1 / 2\<rfloor>"
    by (simp add: iradius_def a_def n_def algebra_simps)
  have "(\<lfloor>a + 1 / 2\<rfloor> = 0) = (a < 1 / 2)"
    using a0 by (auto simp: floor_eq_iff)
  also have "\<dots> = (sqrt (1 / 2 * real_of_int n) < 1)"
    by (simp add: a_def)
  also have "\<dots> = (1 / 2 * real_of_int n < 1)"
    using real_sqrt_less_iff [of "1 / 2 * real_of_int n" 1] by simp
  also have "\<dots> = (n < 2)"
    by auto
  finally have zero: "(iradius = 0) = (n < 2)"
    by (simp add: rad)
  have mid: "get_closest_pixel_indexes item (0.5 * (x0 + x1)) (0.5 * (y0 + y1)) = (ixc, iyc)"
    using assms(3) by (simp add: field_simps)
  have rdef: "\<lfloor>0.5 * sqrt (0.5 * real_of_int ((ix1 - ix0)\<^sup>2)
                          + 0.5 * real_of_int ((iy1 - iy0)\<^sup>2)) + 0.5\<rfloor> = iradius"
    by (simp add: iradius_def)
  show ?thesis
    unfolding compute_radial_section_def assms(1,2) mid prod.case rdef
    using zero by (simp add: Let_def n_def)
qed

theorem compute_radial_section_radius_witness:
  "get_closest_pixel_indexes (image_with (Inr ([], []))) 0 0 = (0, 0)
   \<and> get_closest_pixel_indexes (image_with (Inr ([], []))) 1 0 = (1, 0)
   \<and> get_closest_pixel_indexes (image_with (Inr ([], []))) 2 2 = (2, 2)
   \<and> compute_radial_section no_ext (image_with (Inr ([], []))) 0 0 1 0 None = ([], [], Some [])
   \<and> fst (snd (compute_radial_section no_ext (image_with (Inr ([], []))) 0 0 2 2 None))
        = [Val 0, Val 0]"
proof -
  define img where "img = image_with (Inr ([], []))"
  have p0: "get_closest_pixel_indexes img 0 0 = (0, 0)"
    and p1: "get_closest_pixel_indexes img 1 0 = (1, 0)"
    and p2: "get_closest_pixel_indexes img 2 2 = (2, 2)"
    and m1: "get_closest_pixel_indexes img ((0 + 1) / 2) ((0 + 0) / 2) = (1, 0)"
    and m2: "get_closest_pixel_indexes img ((0 + 2) / 2) ((0 + 2) / 2) = (1, 1)"
    by (simp_all add: img_def image_with_def)
  have small: "compute_radial_section no_ext img 0 0 1 0 None = ([], [], Some [])"
    using compute_radial_section_radius [OF p0 p1 m1, of no_ext None] by simp
  have r: "\<lfloor>1 / 2 * sqrt (1 / 2 * real_of_int ((2 - 0)\<^sup>2) + 1 / 2 * real_of_int ((2 - 0)\<^sup>2))
            + 1 / 2\<rfloor> = (1::int)"
    by simp
  have large: "fst (snd (compute_radial_section no_ext img 0 0 2 2 None)) = [Val 0, Val 0]"
    using compute_radial_section_radius [OF p0 p2 m2, of no_ext None]
    unfolding r by (simp add: img_def image_with_def no_ext_def upt_conv_Cons)
  show ?thesis
    using p0 p1 p2 small large unfolding img_def by simp
qed

lemma update_curves_hides_rest:
  "update_curves w False asm lut obj (Suc n) rest plot =
     Inr (map (\<lambda>b. (fst b, (snd b)\<lparr>item_visible := False\<rparr>)) rest, plot)"
  by (induction rest arbitrary: n) (auto simp: bindE_def)

lemma update_plot_first_curve:
  assumes mode: "\<not> cs_perimage_mode self"
    and on_plot: "obj_plot t \<noteq> None"
    and items: "known_items self = (i0, c0) # rest"
  shows "case update_item w (if item_attached c0 then Some (qwt self) else None)
                (c0\<lparr>item_visible := True, perimage_mode := cs_perimage_mode self,
                    autoscale_mode := cs_autoscale_mode self, apply_lut := cs_apply_lut self\<rparr>) t of
           Inl e \<Rightarrow> update_plot w self (Some (h, t)) = Inl e
         | Inr (p1, c1) \<Rightarrow>
             (\<exists>self'. update_plot w self (Some (h, t)) = Inr self'
                \<and> known_items self' =
                     (i0, c1) # map (\<lambda>b. (fst b, (snd b)\<lparr>item_visible := False\<rparr>)) rest)"
proof -
  define self1 where "self1 = self\<lparr>last_obj := Some h\<rparr>"
  define self2 where
    "self2 = (if label_visible self1 then self1\<lparr>label_visible := False\<rparr> else self1)"
  define c0' where
    "c0' = c0\<lparr>item_visible := True, perimage_mode := cs_perimage_mode self,
              autoscale_mode := cs_autoscale_mode self, apply_lut := cs_apply_lut self\<rparr>"
  define hidden where "hidden = map (\<lambda>b. (fst b, (snd b)\<lparr>item_visible := False\<rparr>)) rest"
  have f2: "cs_perimage_mode self2 = False" "cs_autoscale_mode self2 = cs_autoscale_mode self"
    "cs_apply_lut self2 = cs_apply_lut self" "known_items self2 = (i0, c0) # rest"
    "qwt self2 = qwt self"
    using mode items by (simp_all add: self2_def self1_def)
  have up: "update_plot w self (Some (h, t)) =
      bindE (update_curves w False (cs_autoscale_mode self) (cs_apply_lut self) t 0
               ((i0, c0) # rest) (qwt self))
        (\<lambda>(items', plot').
           let self3 = self2\<lparr>known_items := items', qwt := plot'\<rparr>
           in if cs_autoscale_mode self3
              then Inr (self3\<lparr>qwt := plot'\<lparr>plot_calls := plot_calls plot' @ [DoAutoscale]\<rparr>\<rparr>)
              else Inr self3)"
  proof -
    obtain pl where "obj_plot t = Some pl"
      using on_plot by auto
    then show ?thesis
      by (simp add: update_plot_def self1_def [symmetric] self2_def [symmetric] f2 Let_def
          del: update_curves.simps)
  qed
  have att: "item_attached c0' = item_attached c0"
    by (simp add: c0'_def)
  have loop: "update_curves w False (cs_autoscale_mode self) (cs_apply_lut self) t 0
                ((i0, c0) # rest) (qwt self) =
      bindE (update_item w (if item_attached c0 then Some (qwt self) else None) c0' t)
        (\<lambda>(plot1, curve2).
           Inr ((i0, curve2) # hidden, (case plot1 of None \<Rightarrow> qwt self | Some p \<Rightarrow> p)))"
    unfolding c0'_def hidden_def
    by (simp add: update_curves_hides_rest mode Let_def bindE_def
        split: sum.splits prod.splits)
  show ?thesis
  proof (cases "update_item w (if item_attached c0 then Some (qwt self) else None) c0' t")
    case (Inl e)
    then show ?thesis
      unfolding c0'_def [symmetric] up loop by (simp add: bindE_def)
  next
    case (Inr r)
    obtain p1 c1 where r: "r = (p1, c1)" by (cases r)
    show ?thesis
      unfolding c0'_def [symmetric] hidden_def [symmetric] up loop
      using Inr r by (simp add: bindE_def Let_def)
  qed
qed


lemma update_plot_off_plot:
  assumes "obj_plot t = None"
  shows "update_plot w self (Some (h, t)) = Inr (unregister_shape (self\<lparr>last_obj := Some h\<rparr>) h)"
  using assms by (simp add: update_plot_def)

lemma ex_x_section:
  "get_plot_x_section (marker_at 1 1 (Some (plot_with [plain_image] False))) False
     = Inr ([Val 0, Val (4 / 3), Val (8 / 3), Val 4], [Val 0, Val 1, Val 2, Val 3])"
  by (simp add: get_plot_x_section_def marker_at_def plot_with_def plain_image_def
      get_object_coordinates_def bindE_def get_image_data_def List.map_filter_def sampled_def
      flat_array_def mean_axis0_def np_mean_def linspace_def Let_def upt_conv_Cons)

lemma ex_update_item_plot_mode:
  "update_item (living_world 7 img objs) (Some \<lparr>plot_visible = True, plot_calls = calls\<rparr>)
     ((set_source_image (new_item XCrossSectionItem 0) 7)\<lparr>perimage_mode := False\<rparr>)
     (marker_at 1 1 (Some (plot_with [plain_image] False)))
   = Inr (Some \<lparr>plot_visible = True, plot_calls = calls @ [Emit_CS_CURVE_CHANGED 0]\<rparr>,
          (set_source_image (new_item XCrossSectionItem 0) 7)
            \<lparr>perimage_mode := False,
             item_data := ([Val 0, Val (4 / 3), Val (8 / 3), Val 4],
                           [Val 0, Val 1, Val 2, Val 3], None, None)\<rparr>)"
proof -
  have rect: "get_rectangular_area (marker_at 1 1 (Some (plot_with [plain_image] False))) = None"
    by (simp add: marker_at_def get_rectangular_area_def)
  have coords: "get_object_coordinates (marker_at 1 1 (Some (plot_with [plain_image] False)))
                = Inr (1, 1)"
    by (simp add: marker_at_def get_object_coordinates_def)
  show ?thesis
    using ex_x_section
    by (simp add: update_item_def update_curve_data_def base_update_curve_data_def
        get_cross_section_def get_source_image_def rect coords bindE_def inverted_def
        empty_or_all_nan_def set_source_image_def new_item_def living_world_def)
qed

text \<open>
  Claim C8 as stated fails: a refresh whose target is on no plot, or that has no live
  target (as \<open>toggle_perimage_mode(False)\<close> without a marker), returns before the loop
  over the bindings, and with \<open>perimage_mode\<close> off the second curve stays shown.
\<close>

theorem refresh_without_target_on_plot_counterexample:
  "update_plot (living_world 7 (image_with (Inr ([], []))) (\<lambda>k. None))
     (panel_state False None True []
        [(7, set_source_image (new_item XCrossSectionItem 0) 7),
         (8, set_source_image (new_item YCrossSectionItem 1) 8)] [])
     (Some (3, marker_at 1 1 None))
   = Inr (panel_state False (Some 3) True []
        [(7, set_source_image (new_item XCrossSectionItem 0) 7),
         (8, set_source_image (new_item YCrossSectionItem 1) 8)] [])
   \<and> toggle_perimage_mode (living_world 7 (image_with (Inr ([], []))) (\<lambda>k. None))
     (panel_state True None True []
        [(7, set_source_image (new_item XCrossSectionItem 0) 7),
         (8, set_source_image (new_item YCrossSectionItem 1) 8)] [])
     False
   = Inr (panel_state False None True []
        [(7, set_source_image (new_item XCrossSectionItem 0) 7),
         (8, set_source_image (new_item YCrossSectionItem 1) 8)] [])
   \<and> item_visible (set_source_image (new_item YCrossSectionItem 1) 8)"
  by (simp add: update_plot_def toggle_perimage_mode_def get_last_obj_def panel_state_def
      marker_at_def unregister_shape_def set_source_image_def new_item_def living_world_def)

text \<open>
  Claim C8, amended. A refresh of a panel whose \<open>perimage_mode\<close> is off, for a target
  (the object given, or else the live object of \<open>last_obj\<close>) that is on a plot: the first
  curve is shown, receives the panel's \<open>perimage_mode\<close>, \<open>autoscale_mode\<close> and \<open>apply_lut\<close>,
  and is then updated by \<open>update_item\<close> for the target; every other curve is hidden and
  otherwise left as it was; an exception of that one \<open>update_item\<close> is the only exception
  of the refresh. A refresh without a live target, or whose target is on no plot, returns
  with every curve as it was.
\<close>

theorem update_plot_single_source_mode:
  assumes mode: "\<not> cs_perimage_mode self"
  shows "(obj = None \<and> get_last_obj w self = None \<longrightarrow> update_plot w self obj = Inr self)
       \<and> (\<forall>h t. (obj = Some (h, t) \<or> obj = None \<and> get_last_obj w self = Some (h, t)) \<longrightarrow>
            (obj_plot t = None \<longrightarrow>
               (\<exists>self'. update_plot w self obj = Inr self'
                  \<and> known_items self' = known_items self))
          \<and> (obj_plot t \<noteq> None \<longrightarrow>
               (\<forall>i0 c0 rest. known_items self = (i0, c0) # rest \<longrightarrow>
                  (case update_item w (if item_attached c0 then Some (qwt self) else None)
                          (c0\<lparr>item_visible := True, perimage_mode := cs_perimage_mode self,
                              autoscale_mode := cs_autoscale_mode self,
                              apply_lut := cs_apply_lut self\<rparr>) t of
                     Inl e \<Rightarrow> update_plot w self obj = Inl e
                   | Inr (p1, c1) \<Rightarrow>
                       (\<exists>self'. update_plot w self obj = Inr self'
                          \<and> known_items self' =
                               (i0, c1)
                               # map (\<lambda>b. (fst b, (snd b)\<lparr>item_visible := False\<rparr>)) rest)))))"
proof (intro conjI allI impI)
  assume "obj = None \<and> get_last_obj w self = None"
  then show "update_plot w self obj = Inr self"
    by (simp add: update_plot_def)
next
  fix h t
  assume target: "obj = Some (h, t) \<or> obj = None \<and> get_last_obj w self = Some (h, t)"
  have resolved: "update_plot w self obj = update_plot w self (Some (h, t))"
  proof (cases obj)
    case None
    with target have "get_last_obj w self = Some (h, t)" by simp
    then have "last_obj self = Some h" "objects w h = Some t"
      by (auto simp: get_last_obj_def split: option.splits)
    then show ?thesis
      using None by (simp add: update_plot_reuses_last)
  next
    case (Some a)
    with target show ?thesis by simp
  qed
  {
    assume "obj_plot t = None"
    then show "\<exists>self'. update_plot w self obj = Inr self' \<and> known_items self' = known_items self"
      by (simp add: resolved update_plot_off_plot unregister_shape_def)
  next
    fix i0 c0 rest
    assume on_plot: "obj_plot t \<noteq> None" and items: "known_items self = (i0, c0) # rest"
    show "case update_item w (if item_attached c0 then Some (qwt self) else None)
                      (c0\<lparr>item_visible := True, perimage_mode := cs_perimage_mode self,
                          autoscale_mode := cs_autoscale_mode self,
                          apply_lut := cs_apply_lut self\<rparr>) t of
                 Inl e \<Rightarrow> update_plot w self obj = Inl e
               | Inr (p1, c1) \<Rightarrow>
                   (\<exists>self'. update_plot w self obj = Inr self'
                      \<and> known_items self' =
                           (i0, c1) # map (\<lambda>b. (fst b, (snd b)\<lparr>item_visible := False\<rparr>)) rest)"
      unfolding resolved by (rule update_plot_first_curve [OF mode on_plot items])
  }
qed


theorem update_plot_single_source_mode_witness:
  "(\<exists>self'. update_plot (living_world 7 (image_with (Inr ([], []))) (\<lambda>k. None))
          (panel_state False None True []
             [(7, set_source_image (new_item XCrossSectionItem 0) 7),
              (8, set_source_image (new_item YCrossSectionItem 1) 8)] [])
          (Some (3, marker_at 1 1 (Some (plot_with [plain_image] False)))) = Inr self'
        \<and> known_items self' =
            [(7, (set_source_image (new_item XCrossSectionItem 0) 7)
                   \<lparr>perimage_mode := False,
                    item_data := ([Val 0, Val (4 / 3), Val (8 / 3), Val 4],
                                  [Val 0, Val 1, Val 2, Val 3], None, None)\<rparr>),
             (8, (set_source_image (new_item YCrossSectionItem 1) 8)\<lparr>item_visible := False\<rparr>)])
   \<and> (\<exists>self'. update_plot
          (living_world 7 (image_with (Inr ([], [])))
             (\<lambda>k. if k = 3 then Some (marker_at 1 1 (Some (plot_with [plain_image] False)))
                  else None))
          (panel_state False (Some 3) True []
             [(7, set_source_image (new_item XCrossSectionItem 0) 7),
              (8, set_source_image (new_item YCrossSectionItem 1) 8)] [])
          None = Inr self'
        \<and> known_items self' =
            [(7, (set_source_image (new_item XCrossSectionItem 0) 7)
                   \<lparr>perimage_mode := False,
                    item_data := ([Val 0, Val (4 / 3), Val (8 / 3), Val 4],
                                  [Val 0, Val 1, Val 2, Val 3], None, None)\<rparr>),
             (8, (set_source_image (new_item YCrossSectionItem 1) 8)\<lparr>item_visible := False\<rparr>)])
   \<and> (\<exists>self'. update_plot (living_world 7 (image_with (Inr ([], []))) (\<lambda>k. None))
          (panel_state False None True []
             [(7, set_source_image (new_item XCrossSectionItem 0) 7),
              (8, set_source_image (new_item YCrossSectionItem 1) 8)] [])
          (Some (3, marker_at 1 1 None)) = Inr self'
        \<and> known_items self' =
            [(7, set_source_image (new_item XCrossSectionItem 0) 7),
             (8, set_source_image (new_item YCrossSectionItem 1) 8)])
   \<and> update_plot (living_world 7 (image_with (Inr ([], []))) (\<lambda>k. None))
          (panel_state False (Some 3) True []
             [(7, set_source_image (new_item XCrossSectionItem 0) 7),
              (8, set_source_image (new_item YCrossSectionItem 1) 8)] [])
          None
        = Inr (panel_state False (Some 3) True []
             [(7, set_source_image (new_item XCrossSectionItem 0) 7),
              (8, set_source_image (new_item YCrossSectionItem 1) 8)] [])"
proof -
  define img where "img = image_with (Inr ([], []))"
  define M where "M = marker_at 1 1 (Some (plot_with [plain_image] False))"
  define c0 where "c0 = set_source_image (new_item XCrossSectionItem 0) 7"
  define c8 where "c8 = set_source_image (new_item YCrossSectionItem 1) 8"
  define c1 where
    "c1 = c0\<lparr>perimage_mode := False,
              item_data := ([Val 0, Val (4 / 3), Val (8 / 3), Val 4],
                            [Val 0, Val 1, Val 2, Val 3], None, None)\<rparr>"
  define W0 where "W0 = living_world 7 img (\<lambda>k. None)"
  define W3 where "W3 = living_world 7 img (\<lambda>k. if k = 3 then Some M else None)"
  define P where "P lo = panel_state False lo True [] [(7, c0), (8, c8)] []" for lo
  have mode: "\<not> cs_perimage_mode (P lo)" for lo
    by (simp add: P_def panel_state_def)
  have items: "known_items (P lo) = (7, c0) # [(8, c8)]" for lo
    by (simp add: P_def panel_state_def)
  have on_plot: "obj_plot M \<noteq> None" and off_plot: "obj_plot (marker_at 1 1 None) = None"
    by (simp_all add: M_def marker_at_def)
  have c0': "c0\<lparr>item_visible := True, perimage_mode := cs_perimage_mode (P lo),
                autoscale_mode := cs_autoscale_mode (P lo), apply_lut := cs_apply_lut (P lo)\<rparr>
             = c0\<lparr>perimage_mode := False\<rparr>" for lo
    by (simp add: P_def panel_state_def c0_def set_source_image_def new_item_def)
  have item: "update_item (living_world 7 img objs)
                (if item_attached c0 then Some (qwt (P lo)) else None)
                (c0\<lparr>item_visible := True, perimage_mode := cs_perimage_mode (P lo),
                    autoscale_mode := cs_autoscale_mode (P lo), apply_lut := cs_apply_lut (P lo)\<rparr>) M
              = Inr (Some \<lparr>plot_visible = True, plot_calls = [] @ [Emit_CS_CURVE_CHANGED 0]\<rparr>, c1)"
    for objs lo
  proof -
    have att: "item_attached c0" and q: "qwt (P lo) = \<lparr>plot_visible = True, plot_calls = []\<rparr>"
      by (simp_all add: c0_def set_source_image_def new_item_def P_def panel_state_def)
    show ?thesis
      unfolding c0' c1_def unfolding c0_def M_def by (simp only: att [unfolded c0_def] q if_True)
        (rule ex_update_item_plot_mode)
  qed
  have last3: "get_last_obj W3 (P (Some 3)) = Some (3, M)"
    and last0: "get_last_obj W0 (P (Some 3)) = None"
    by (simp_all add: get_last_obj_def P_def panel_state_def W3_def W0_def living_world_def)
  have given: "\<exists>self'. update_plot W0 (P None) (Some (3, M)) = Inr self'
                 \<and> known_items self' = [(7, c1), (8, c8\<lparr>item_visible := False\<rparr>)]"
    using update_plot_single_source_mode [OF mode, of "Some (3, M)" W0 None] on_plot items [of None]
      item [of "\<lambda>k. None" None]
    by (simp add: W0_def)
  have reused: "\<exists>self'. update_plot W3 (P (Some 3)) None = Inr self'
                 \<and> known_items self' = [(7, c1), (8, c8\<lparr>item_visible := False\<rparr>)]"
    using update_plot_single_source_mode [OF mode, of None W3 "Some 3"] on_plot
      items [of "Some 3"] last3
      item [of "\<lambda>k. if k = 3 then Some M else None" "Some 3"]
    by (simp add: W3_def)
  have early: "\<exists>self'. update_plot W0 (P None) (Some (3, marker_at 1 1 None)) = Inr self'
                 \<and> known_items self' = [(7, c0), (8, c8)]"
    using update_plot_single_source_mode [OF mode, of "Some (3, marker_at 1 1 None)" W0 None]
      off_plot items [of None]
    by simp
  have none: "update_plot W0 (P (Some 3)) None = Inr (P (Some 3))"
    using update_plot_single_source_mode [OF mode, of None W0 "Some 3"] last0
    by simp
  show ?thesis
    using given reused early none
    unfolding W0_def W3_def P_def img_def M_def c0_def c8_def c1_def by simp
qed

text \<open>
  Claim C1. On a plot with no eligible image item (here its only image is an
  \<open>XYImageItem\<close>), \<open>get_image_data\<close> returns \<open>None\<close> and each of the four extractors
  raises AttributeError instead of returning the empty profile.
\<close>

theorem plot_sections_raise_without_source:
  "get_image_data (plot_with [xy_image] False) (0, 1) (4, 0) False = Inr None
   \<and> get_plot_x_section (marker_at 1 1 (Some (plot_with [xy_image] False))) False
       = Inl AttributeError
   \<and> get_plot_y_section (marker_at 1 1 (Some (plot_with [xy_image] False))) False
       = Inl AttributeError
   \<and> get_plot_average_x_section (rectangle_at 0 0 2 2 (Some (plot_with [xy_image] False))) False
       = Inl AttributeError
   \<and> get_plot_average_y_section (rectangle_at 0 0 2 2 (Some (plot_with [xy_image] False))) False
       = Inl AttributeError"
  by (simp add: get_plot_x_section_def get_plot_y_section_def get_plot_average_x_section_def
      get_plot_average_y_section_def marker_at_def rectangle_at_def plot_with_def xy_image_def
      get_object_coordinates_def bindE_def get_image_data_def sampled_def Let_def)

lemma sampler_failures_give_empty_profile:
  "sampled (Inl ValueError) k = Inr ([], [])" "sampled (Inl ZeroDivisionError) k = Inr ([], [])"
  "sampled (Inr None) k = Inl AttributeError"
  by (simp_all add: sampled_def)

lemma linspace_length: "length (linspace a b n) = n"
  by (simp add: linspace_def)

lemma sorted_map_upt:
  assumes "\<And>i j. i \<le> j \<Longrightarrow> f i \<le> (f j :: real)"
  shows "sorted (map f [0..<n])"
  using assms by (simp add: sorted_iff_nth_mono)

lemma linspace_ascending:
  assumes "a \<le> b"
  shows "sorted (linspace a b n)"
proof (cases "n = 1")
  case True
  then show ?thesis by (simp add: linspace_def)
next
  case False
  have "sorted (map (\<lambda>i. a + real i * ((b - a) / real (n - 1))) [0..<n])"
  proof (rule sorted_map_upt)
    fix i j :: nat
    assume ij: "i \<le> j"
    define d where "d = (b - a) / real (n - 1)"
    have "0 \<le> d"
      using assms by (simp add: d_def)
    then have "real i * d \<le> real j * d"
      using ij by (intro mult_right_mono) simp_all
    then have "a + real i * d \<le> a + real j * d"
      by (rule add_left_mono)
    then show "a + real i * ((b - a) / real (n - 1)) \<le> a + real j * ((b - a) / real (n - 1))"
      unfolding d_def .
  qed
  with False show ?thesis by (simp add: linspace_def)
qed

lemma linspace_descending:
  assumes "b \<le> a"
  shows "sorted (rev (linspace a b n))"
proof (cases "n = 1")
  case True
  then show ?thesis by (simp add: linspace_def)
next
  case False
  have "sorted (map uminus (map (\<lambda>i. a + real i * ((b - a) / real (n - 1))) [0..<n]))"
    unfolding map_map
  proof (rule sorted_map_upt)
    fix i j :: nat
    assume ij: "i \<le> j"
    define d where "d = (b - a) / real (n - 1)"
    have "d \<le> 0"
      using assms by (simp add: d_def divide_nonpos_nonneg)
    then have "real j * d \<le> real i * d"
      using ij by (intro mult_right_mono_neg) simp_all
    then have "- (a + real i * d) \<le> - (a + real j * d)"
      by linarith
    then show "(uminus \<circ> (\<lambda>i. a + real i * ((b - a) / real (n - 1)))) i
             \<le> (uminus \<circ> (\<lambda>i. a + real i * ((b - a) / real (n - 1)))) j"
      unfolding d_def comp_def .
  qed
  then have "sorted (rev (map (\<lambda>i. a + real i * ((b - a) / real (n - 1))) [0..<n]))"
    by (simp add: sorted_wrt_rev sorted_map sorted_wrt_map)
  with False show ?thesis by (simp add: linspace_def)
qed

lemma linspace_ends:
  "0 < n \<Longrightarrow> hd (linspace a b n) = a" "2 \<le> n \<Longrightarrow> last (linspace a b n) = b"
proof -
  assume "0 < n"
  then show "hd (linspace a b n) = a"
    by (simp add: linspace_def hd_map upt_conv_Cons)
next
  assume n: "2 \<le> n"
  then have "[0..<n] \<noteq> []" by simp
  then have "last (map (\<lambda>i. a + real i * ((b - a) / real (n - 1))) [0..<n])
             = a + real (n - 1) * ((b - a) / real (n - 1))"
    using n by (simp add: last_map)
  also have "\<dots> = b" using n by simp
  finally show "last (linspace a b n) = b"
    using n by (simp add: linspace_def)
qed

text \<open>
  Claim C2 as stated fails: for a rectangle whose first corner is right of its second
  (\<open>x0 > x1\<close>), the x-array of the rectangle-averaged x-section descends.
\<close>

theorem average_x_section_descending_counterexample:
  "get_plot_average_x_section (rectangle_at 2 0 0 1 (Some (plot_with [plain_image] False))) False
     = Inr (map Val [2, 0], [Val 1, Val 0])
   \<and> \<not> sorted [2, 0 :: real]"
  by (simp add: get_plot_average_x_section_def rectangle_at_def plot_with_def plain_image_def
      get_image_data_def List.map_filter_def bindE_def sampled_def flat_array_def
      mean_axis0_def np_mean_def linspace_def Let_def upt_conv_Cons)

lemma mirrored_map_upt: "map (\<lambda>i. f (n - 1 - i)) [0..<n] = rev (map f [0..<n])"
  by (rule nth_equalityI) (simp_all add: rev_nth)

lemma vals_append:
  "vals (xs @ ys) = (case vals xs of None \<Rightarrow> None
                     | Some us \<Rightarrow> (case vals ys of None \<Rightarrow> None | Some vs \<Rightarrow> Some (us @ vs)))"
  by (induction xs rule: vals.induct) (simp_all split: option.splits)

lemma vals_rev: "vals (rev xs) = map_option rev (vals xs)"
proof (induction xs)
  case Nil
  then show ?case by simp
next
  case (Cons x xs)
  then show ?case
    by (cases x) (simp_all add: vals_append split: option.splits)
qed

lemma np_mean_rev: "np_mean (rev xs) = np_mean xs"
  by (cases "vals xs") (simp_all add: np_mean_def vals_rev)

lemma mean_axis0_mirrored:
  assumes shape: "nrows d' = nrows d" "ncols d' = ncols d"
    and same: "\<forall>i<nrows d. \<forall>j<ncols d.
                 elem d' i j = elem d (if rows_mirrored then nrows d - 1 - i else i)
                                      (if cols_same then j else ncols d - 1 - j)"
  shows "mean_axis0 d' = (if cols_same then mean_axis0 d else rev (mean_axis0 d))"
proof -
  define g where "g j = np_mean (map (\<lambda>i. elem d i j) [0..<nrows d])" for j
  define c where "c j = (if cols_same then j else ncols d - 1 - j)" for j
  have cin: "c j < ncols d" if "j < ncols d" for j
    using that by (simp add: c_def)
  have col: "np_mean (map (\<lambda>i. elem d' i j) [0..<nrows d]) = g (c j)" if j: "j < ncols d" for j
  proof (cases rows_mirrored)
    case True
    have "map (\<lambda>i. elem d' i j) [0..<nrows d]
          = map (\<lambda>i. elem d (nrows d - 1 - i) (c j)) [0..<nrows d]"
      using same j True by (simp add: c_def)
    also have "\<dots> = rev (map (\<lambda>i. elem d i (c j)) [0..<nrows d])"
      by (rule mirrored_map_upt)
    finally show ?thesis
      by (simp add: np_mean_rev g_def)
  next
    case False
    have "map (\<lambda>i. elem d' i j) [0..<nrows d] = map (\<lambda>i. elem d i (c j)) [0..<nrows d]"
      using same j False by (simp add: c_def)
    then show ?thesis
      unfolding g_def by (rule arg_cong)
  qed
  have "mean_axis0 d' = map (\<lambda>j. g (c j)) [0..<ncols d]"
    using col by (simp add: mean_axis0_def shape)
  also have "\<dots> = (if cols_same then map g [0..<ncols d] else rev (map g [0..<ncols d]))"
    using mirrored_map_upt [of g "ncols d"] by (simp add: c_def)
  finally show ?thesis
    by (simp add: mean_axis0_def g_def)
qed

lemma average_x_section_sampled:
  assumes rect: "get_rect_attr obj = Some (x0, y0, x1, y1)"
    and plot: "obj_plot obj = Some plot"
    and c0: "axes_to_canvas obj x0 y0 = (xa, ya)"
    and c1: "axes_to_canvas obj x1 y1 = (xb, yb)"
  shows "get_plot_average_x_section obj lut =
      sampled (get_image_data plot
                 (min xa xb, if axis_direction_left plot then min ya yb else max ya yb)
                 (max xa xb, if axis_direction_left plot then max ya yb else min ya yb) lut)
        (\<lambda>d. (map Val (linspace x0 x1 (ncols d)),
              if xb < xa then rev (mean_axis0 d) else mean_axis0 d))"
proof -
  have len: "length (mean_axis0 d) = ncols d" for d
    by (simp add: mean_axis0_def)
  show ?thesis
    unfolding get_plot_average_x_section_def rect plot c0 c1 option.case prod.case Let_def
      fst_conv snd_conv
    by (cases "xb < xa"; cases "axis_direction_left plot"; cases "ya < yb"; cases "yb < ya")
      (simp_all add: min_def max_def len)
qed

text \<open>
  Claim C2, amended. The rectangle-averaged x-section samples the plot between the
  canvas corners put in order (\<open>xc0 \<le> xc1\<close>, and the y corners in the order of the
  left axis direction); its x-array is \<open>linspace(x0, x1)\<close> over the rectangle as
  \<open>get_rect\<close> gives it, one sample per sampled column: ascending in data order when
  \<open>x0 \<le> x1\<close>, descending when \<open>x1 \<le> x0\<close>, from \<open>x0\<close> to \<open>x1\<close>. The column means are
  reversed exactly when the canvas x-order of the corners is reversed, so that the k-th
  value belongs to the k-th x sample counted from \<open>x0\<close>. The same region seen under
  another axis-direction setting (another plot and canvas mapping, the same rectangle,
  the sampled array being the same array mirrored left to right when the canvas x-order
  of the corners differs, and possibly mirrored top to bottom) gives the same profile.
\<close>

theorem average_x_section_follows_rectangle:
  assumes rect: "get_rect_attr obj = Some (x0, y0, x1, y1)"
    and plot: "obj_plot obj = Some plot"
    and c0: "axes_to_canvas obj x0 y0 = (xa, ya)"
    and c1: "axes_to_canvas obj x1 y1 = (xb, yb)"
    and data: "get_image_data plot
                 (min xa xb, if axis_direction_left plot then min ya yb else max ya yb)
                 (max xa xb, if axis_direction_left plot then max ya yb else min ya yb) lut
               = Inr (Some d)"
    and rect': "get_rect_attr obj' = Some (x0, y0, x1, y1)"
    and plot': "obj_plot obj' = Some plot'"
    and c0': "axes_to_canvas obj' x0 y0 = (xa', ya')"
    and c1': "axes_to_canvas obj' x1 y1 = (xb', yb')"
    and data': "get_image_data plot'
                 (min xa' xb', if axis_direction_left plot' then min ya' yb' else max ya' yb')
                 (max xa' xb', if axis_direction_left plot' then max ya' yb' else min ya' yb') lut
               = Inr (Some d')"
    and shape: "nrows d' = nrows d" "ncols d' = ncols d"
    and same: "\<forall>i<nrows d. \<forall>j<ncols d.
                 elem d' i j = elem d (if rows_mirrored then nrows d - 1 - i else i)
                                      (if (xb' < xa') = (xb < xa) then j else ncols d - 1 - j)"
  shows "get_plot_average_x_section obj lut =
           Inr (map Val (linspace x0 x1 (ncols d)),
                if xb < xa then rev (mean_axis0 d) else mean_axis0 d)
       \<and> (x0 \<le> x1 \<longrightarrow> sorted (linspace x0 x1 (ncols d)))
       \<and> (x1 \<le> x0 \<longrightarrow> sorted (rev (linspace x0 x1 (ncols d))))
       \<and> (0 < ncols d \<longrightarrow> hd (linspace x0 x1 (ncols d)) = x0)
       \<and> (2 \<le> ncols d \<longrightarrow> last (linspace x0 x1 (ncols d)) = x1)
       \<and> get_plot_average_x_section obj' lut = get_plot_average_x_section obj lut"
proof -
  have one: "get_plot_average_x_section obj lut =
           Inr (map Val (linspace x0 x1 (ncols d)),
                if xb < xa then rev (mean_axis0 d) else mean_axis0 d)"
    unfolding average_x_section_sampled [OF rect plot c0 c1] data by (simp add: sampled_def)
  have other: "get_plot_average_x_section obj' lut =
           Inr (map Val (linspace x0 x1 (ncols d')),
                if xb' < xa' then rev (mean_axis0 d') else mean_axis0 d')"
    unfolding average_x_section_sampled [OF rect' plot' c0' c1'] data' by (simp add: sampled_def)
  have means: "mean_axis0 d' =
                 (if (xb' < xa') = (xb < xa) then mean_axis0 d else rev (mean_axis0 d))"
    using shape same by (rule mean_axis0_mirrored)
  have "get_plot_average_x_section obj' lut = get_plot_average_x_section obj lut"
    unfolding one other means shape by auto
  with one show ?thesis
    by (simp add: linspace_ascending linspace_descending linspace_ends)
qed


theorem average_x_section_follows_rectangle_witness:
  "get_plot_average_x_section (rectangle_at 0 0 2 1 (Some (plot_with [plain_image] False))) False
     = Inr (map Val [0, 2], [Val 0, Val 1])
   \<and> get_plot_average_x_section
       (mirrored_rectangle_at 0 0 2 1 (Some (mirrored_plot_with [plain_image] True))) False
     = Inr (map Val [0, 2], [Val 0, Val 1])
   \<and> get_image_data (mirrored_plot_with [plain_image] True) (2, 0) (4, 1) False
     = Inr (Some (flat_array Float64 1 2 (\<lambda>i j. 4 - 2 - real j - 1)))
   \<and> sorted (linspace 0 2 2)
   \<and> get_plot_average_x_section (rectangle_at 2 0 0 1 (Some (plot_with [plain_image] False))) False
     = Inr (map Val [2, 0], [Val 1, Val 0])
   \<and> sorted (rev (linspace 2 0 2))"
proof -
  define plot where "plot = plot_with [plain_image] False"
  define plot' where "plot' = mirrored_plot_with [plain_image] True"
  define d where "d = flat_array Float64 1 2 (\<lambda>i j. real j)"
  define d' where "d' = flat_array Float64 1 2 (\<lambda>i j. 4 - 2 - real j - 1)"
  define R where "R = rectangle_at 0 0 2 1 (Some plot)"
  define R' where "R' = mirrored_rectangle_at 0 0 2 1 (Some plot')"
  define D where "D = rectangle_at 2 0 0 1 (Some plot)"
  have dir: "axis_direction_left plot = False" "axis_direction_left plot' = True"
    by (simp_all add: plot_def plot_with_def plot'_def mirrored_plot_with_def)
  have sample: "get_image_data plot (0, 1) (2, 0) False = Inr (Some d)"
    by (simp add: get_image_data_def plot_def plot_with_def plain_image_def List.map_filter_def
        bindE_def d_def)
  have sample': "get_image_data plot' (2, 0) (4, 1) False = Inr (Some d')"
    by (simp add: get_image_data_def plot'_def mirrored_plot_with_def plain_image_def
        List.map_filter_def bindE_def d'_def)
  have shape: "ncols d = 2" "nrows d = 1" "nrows d' = nrows d" "ncols d' = ncols d"
    by (simp_all add: d_def d'_def flat_array_def)
  have means: "mean_axis0 d = [Val 0, Val 1]"
    by (simp add: d_def flat_array_def mean_axis0_def np_mean_def upt_conv_Cons)
  have lin: "linspace 0 2 2 = [0, 2]" "linspace 2 0 2 = [2, 0]"
    by (simp_all add: linspace_def upt_conv_Cons)
  have el: "elem d' 0 0 = elem d 0 1" "elem d' 0 1 = elem d 0 0"
    by (simp_all add: d_def d'_def flat_array_def)
  have mirror: "\<forall>i<nrows d. \<forall>j<ncols d.
                  elem d' i j = elem d (if False then nrows d - 1 - i else i)
                                       (if ((2::real) < 4) = ((2::real) < 0) then j
                                        else ncols d - 1 - j)"
  proof (intro allI impI)
    fix i j
    assume "i < nrows d" and "j < ncols d"
    then have "i = 0" and "j = 0 \<or> j = 1"
      by (auto simp: shape)
    then show "elem d' i j = elem d (if False then nrows d - 1 - i else i)
                                    (if ((2::real) < 4) = ((2::real) < 0) then j
                                     else ncols d - 1 - j)"
      using el by (auto simp: shape)
  qed
  have same: "\<forall>i<nrows d. \<forall>j<ncols d.
                  elem d i j = elem d (if False then nrows d - 1 - i else i)
                                      (if ((0::real) < 2) = ((0::real) < 2) then j
                                       else ncols d - 1 - j)"
    by simp
  have r: "get_rect_attr R = Some (0, 0, 2, 1)" "obj_plot R = Some plot"
    "axes_to_canvas R 0 0 = (0, 0)" "axes_to_canvas R 2 1 = (2, 1)"
    by (simp_all add: R_def rectangle_at_def)
  have r': "get_rect_attr R' = Some (0, 0, 2, 1)" "obj_plot R' = Some plot'"
    "axes_to_canvas R' 0 0 = (4, 0)" "axes_to_canvas R' 2 1 = (2, 1)"
    by (simp_all add: R'_def mirrored_rectangle_at_def)
  have dd: "get_rect_attr D = Some (2, 0, 0, 1)" "obj_plot D = Some plot"
    "axes_to_canvas D 2 0 = (2, 0)" "axes_to_canvas D 0 1 = (0, 1)"
    by (simp_all add: D_def rectangle_at_def)
  have s1: "get_image_data plot
              (min 0 2, if axis_direction_left plot then min 0 1 else max 0 1)
              (max 0 2, if axis_direction_left plot then max 0 1 else min 0 1) False
            = Inr (Some d)"
    using sample by (simp add: dir)
  have s2: "get_image_data plot'
              (min 4 2, if axis_direction_left plot' then min 0 1 else max 0 1)
              (max 4 2, if axis_direction_left plot' then max 0 1 else min 0 1) False
            = Inr (Some d')"
    using sample' by (simp add: dir)
  have s3: "get_image_data plot
              (min 2 0, if axis_direction_left plot then min 0 1 else max 0 1)
              (max 2 0, if axis_direction_left plot then max 0 1 else min 0 1) False
            = Inr (Some d)"
    using sample by (simp add: dir)
  note up = average_x_section_follows_rectangle
      [OF r(1) r(2) r(3) r(4) s1 r'(1) r'(2) r'(3) r'(4) s2 shape(3) shape(4) mirror]
  note down = average_x_section_follows_rectangle
      [OF dd(1) dd(2) dd(3) dd(4) s3 dd(1) dd(2) dd(3) dd(4) s3 refl refl same]
  have a: "get_plot_average_x_section R False = Inr (map Val [0, 2], [Val 0, Val 1])"
    using up by (simp add: shape lin means)
  have b: "get_plot_average_x_section R' False = Inr (map Val [0, 2], [Val 0, Val 1])"
    using up a by simp
  have c: "sorted (linspace 0 2 2)"
    using up by (simp add: shape)
  have e: "get_plot_average_x_section D False = Inr (map Val [2, 0], [Val 1, Val 0])"
    using down by (simp add: shape lin means)
  have f: "sorted (rev (linspace 2 0 2))"
    using down by (simp add: shape)
  show ?thesis
    using a b c e f sample' unfolding R_def R'_def D_def plot_def plot'_def d'_def by simp
qed

lemma round_sqrt_iff:
  assumes "0 \<le> n" and "0 \<le> r"
  shows "(\<lfloor>sqrt (real_of_int n) + 1 / 2\<rfloor> = r) = (n = 0 \<and> r = 0 \<or> r * r - r < n \<and> n \<le> r * r + r)"
proof (cases "r = 0")
  case True
  have q: "sqrt (1 / 4) = 1 / 2"
    by (simp add: real_sqrt_divide)
  have "(\<lfloor>sqrt (real_of_int n) + 1 / 2\<rfloor> = 0) = (sqrt (real_of_int n) < 1 / 2)"
    using assms(1) by (auto simp: floor_eq_iff)
  also have "\<dots> = (sqrt (real_of_int n) < sqrt (1 / 4))"
    by (simp only: q)
  also have "\<dots> = (real_of_int n < 1 / 4)"
    by (rule real_sqrt_less_iff)
  also have "\<dots> = (n = 0)"
    using assms(1) by linarith
  finally show ?thesis
    using True by auto
next
  case False
  then have r1: "1 \<le> r" using assms(2) by simp
  define x where "x = real_of_int r"
  have x1: "1 \<le> x" using r1 by (simp add: x_def)
  have "(\<lfloor>sqrt (real_of_int n) + 1 / 2\<rfloor> = r)
        = (x - 1 / 2 \<le> sqrt (real_of_int n) \<and> sqrt (real_of_int n) < x + 1 / 2)"
    by (auto simp: floor_eq_iff x_def)
  also have "(x - 1 / 2 \<le> sqrt (real_of_int n)) = ((x - 1 / 2)\<^sup>2 \<le> real_of_int n)"
  proof -
    have "sqrt ((x - 1 / 2)\<^sup>2) = x - 1 / 2"
      using x1 by simp
    then have "(x - 1 / 2 \<le> sqrt (real_of_int n))
               = (sqrt ((x - 1 / 2)\<^sup>2) \<le> sqrt (real_of_int n))"
      by simp
    then show ?thesis
      by (simp only: real_sqrt_le_iff)
  qed
  also have "(sqrt (real_of_int n) < x + 1 / 2) = (real_of_int n < (x + 1 / 2)\<^sup>2)"
  proof -
    have "sqrt ((x + 1 / 2)\<^sup>2) = x + 1 / 2"
      using x1 by simp
    then have "(sqrt (real_of_int n) < x + 1 / 2)
               = (sqrt (real_of_int n) < sqrt ((x + 1 / 2)\<^sup>2))"
      by simp
    then show ?thesis
      by (simp only: real_sqrt_less_iff)
  qed
  also have "((x - 1 / 2)\<^sup>2 \<le> real_of_int n) = (real_of_int (r * r - r) + 1 / 4 \<le> real_of_int n)"
    by (simp add: x_def power2_eq_square algebra_simps)
  also have "\<dots> = (r * r - r < n)"
    by linarith
  also have "(real_of_int n < (x + 1 / 2)\<^sup>2) = (real_of_int n < real_of_int (r * r + r) + 1 / 4)"
    by (simp add: x_def power2_eq_square algebra_simps)
  also have "\<dots> = (n \<le> r * r + r)"
    by linarith
  finally show ?thesis
    using False by simp
qed

lemma radial_loop_selects:
  "radial_loop mean (h, w) data h w r rs ylist =
     Inr (ylist @ map mean (List.filter (\<lambda>ms. ms \<noteq> [])
       (map (\<lambda>i_r. concat (map (\<lambda>i. map (data i) (List.filter (\<lambda>j. r i j = i_r) [0..<w])) [0..<h]))
            rs)))"
  by (induction rs arbitrary: ylist) (simp_all add: Let_def)

lemma upto_as_upt:
  assumes "a \<le> b"
  shows "[a..b - 1] = map (\<lambda>i. a + int i) [0..<nat (b - a)]"
proof -
  have "length [a..b - 1] = nat (b - a)"
    using assms by simp
  moreover have "[a..b - 1] ! i = a + int i" if "i < nat (b - a)" for i
    using that by simp
  ultimately show ?thesis
    by (intro nth_equalityI) simp_all
qed

lemma slice_bounds_inside:
  assumes "0 \<le> lo" "lo \<le> hi" "hi \<le> int n"
  shows "slice_bounds n lo hi = (nat lo, nat hi)"
  using assms by (simp add: slice_bounds_def Let_def min_def max_def)

lemma selection_is_shell:
  assumes "0 \<le> ix0" "ix0 \<le> ix1" "0 \<le> iy0" "iy0 \<le> iy1"
  shows "concat (map (\<lambda>i. map (\<lambda>j. elem a (nat iy0 + i) (nat ix0 + j))
            (List.filter (\<lambda>j. \<lfloor>sqrt (real_of_int ((int j - (ixc - ix0))\<^sup>2 + (int i - (iyc - iy0))\<^sup>2))
                                  + 1 / 2\<rfloor> = i_r) [0..<nat (ix1 - ix0)]))
          [0..<nat (iy1 - iy0)])
       = shell_members a ix0 iy0 ix1 iy1 ixc iyc i_r"
proof -
  have dist: "(ix0 + int j - ixc)\<^sup>2 + (iy0 + int i - iyc)\<^sup>2
              = (int j - (ixc - ix0))\<^sup>2 + (int i - (iyc - iy0))\<^sup>2" for i j
    by (simp add: algebra_simps)
  have px: "nat (ix0 + int j) = nat ix0 + j" for j
    using assms(1) by simp
  have py: "nat (iy0 + int i) = nat iy0 + i" for i
    using assms(3) by simp
  show ?thesis
    unfolding shell_members_def shell_of_def upto_as_upt [OF assms(2)] upto_as_upt [OF assms(4)]
    by (simp only: filter_map comp_def dist px py map_map)
qed

lemma radial_average_inside:
  assumes "0 \<le> ix0" "ix0 \<le> ix1" "ix1 \<le> int (ncols a)"
    and "0 \<le> iy0" "iy0 \<le> iy1" "iy1 \<le> int (nrows a)"
  shows "radial_average f a ix0 iy0 ix1 iy1 ixc iyc iradius =
           astype_all (arr_dtype a)
             (map (shell_mean f (arr_dtype a)) (List.filter (\<lambda>ms. ms \<noteq> [])
                (map (shell_members a ix0 iy0 ix1 iy1 ixc iyc) [0..iradius])))"
proof -
  have ys: "slice_bounds (nrows a) iy0 iy1 = (nat iy0, nat iy1)"
    using assms by (simp add: slice_bounds_inside)
  have xs: "slice_bounds (ncols a) ix0 ix1 = (nat ix0, nat ix1)"
    using assms by (simp add: slice_bounds_inside)
  have shape: "(nat iy1 - nat iy0, nat ix1 - nat ix0) = (nat (iy1 - iy0), nat (ix1 - ix0))"
    using assms by (simp add: nat_diff_distrib')
  show ?thesis
    unfolding radial_average_def ys xs Let_def fst_conv snd_conv shape radial_loop_selects
      selection_is_shell [OF assms(1,2,4,5)]
    using assms(2,5) by (simp add: bindE_def)
qed

lemma astype_all_float: "astype_all Float64 ys = Inr ys"
  by (induction ys) (simp_all add: astype_def bindE_def)

lemma radial_average_float:
  assumes "arr_dtype a = Float64"
    and "0 \<le> ix0" "ix0 \<le> ix1" "ix1 \<le> int (ncols a)"
    and "0 \<le> iy0" "iy0 \<le> iy1" "iy1 \<le> int (nrows a)"
  shows "radial_average f a ix0 iy0 ix1 iy1 ixc iyc iradius =
           Inr (shell_means a ix0 iy0 ix1 iy1 ixc iyc iradius)"
proof -
  have "shell_mean f Float64 = np_mean"
    by (rule ext) (simp add: shell_mean_def)
  then show ?thesis
    using radial_average_inside [OF assms(2-7), of f ixc iyc iradius]
    by (simp add: assms(1) astype_all_float shell_means_def)
qed

lemma shells_of_corner:
  "shell_of 0 0 0 0 = 0" "shell_of 0 0 1 0 = 1" "shell_of 0 0 0 1 = 1" "shell_of 0 0 1 1 = 1"
  using round_sqrt_iff [of 0 0] round_sqrt_iff [of 1 1] round_sqrt_iff [of 2 1]
  by (simp_all add: shell_of_def)

lemma shell_members_corner:
  "shell_members (array_of_rows dt [[0, 1], [2, 1]]) 0 0 2 2 0 0 0 = [Val 0]"
  "shell_members (array_of_rows dt [[0, 1], [2, 1]]) 0 0 2 2 0 0 1 = [Val 1, Val 2, Val 1]"
  "shell_members (array_of_rows dt [[0, 1], [2, 1]]) 0 0 2 2 0 0 2 = []"
  by (simp_all add: shell_members_def shells_of_corner array_of_rows_def upto_rec1)

lemma shell_means_corner:
  "shell_means (array_of_rows dt [[0, 1], [2, 1]]) 0 0 2 2 0 0 2 = [Val 0, Val (4 / 3)]"
  by (simp add: shell_means_def shell_members_corner upto_rec1 np_mean_def)

lemma radial_average_float_corner:
  "radial_average f (array_of_rows Float64 [[0, 1], [2, 1]]) 0 0 2 2 0 0 2
     = Inr [Val 0, Val (4 / 3)]"
  using radial_average_float [of "array_of_rows Float64 [[0, 1], [2, 1]]" 0 2 0 2 f 0 0 2]
  by (simp add: shell_means_corner) (simp add: array_of_rows_def)

text \<open>
  Claim C3. The shell test and the omission of empty shells are as the claim says, and
  for a floating-point array the profile holds the shell means (\<open>radial_average_float\<close>).
  For the integer array \<open>[[0, 1], [2, 1]]\<close>, corners \<open>(0, 0)\<close> and \<open>(2, 2)\<close>, centre
  \<open>(0, 0)\<close> and radius 2, shell 1 holds the samples 1, 2, 1, whose mean is \<open>4/3\<close>, and
  \<open>radial_average\<close> returns 1 for it: \<open>np.array(ylist, dtype=data.dtype)\<close> truncates the
  means to the integer type of the image.
\<close>

theorem radial_average_truncates_integer_means:
  "radial_average f (array_of_rows Int64 [[0, 1], [2, 1]]) 0 0 2 2 0 0 2 = Inr [Val 0, Val 1]
   \<and> shell_members (array_of_rows Int64 [[0, 1], [2, 1]]) 0 0 2 2 0 0 1 = [Val 1, Val 2, Val 1]
   \<and> shell_means (array_of_rows Int64 [[0, 1], [2, 1]]) 0 0 2 2 0 0 2 = [Val 0, Val (4 / 3)]"
proof -
  define a where "a = array_of_rows Int64 [[0, 1], [2, 1]]"
  have shape: "ncols a = 2" "nrows a = 2" "arr_dtype a = Int64"
    by (simp_all add: a_def array_of_rows_def)
  have exact: "exact_in_float64 [Val 0]" "exact_in_float64 [Val 1, Val 2, Val 1]"
    by (simp_all add: exact_in_float64_def)
  have means: "shell_mean f Int64 [Val 0] = Val 0" "shell_mean f Int64 [Val 1, Val 2, Val 1] = Val (4 / 3)"
    by (simp_all add: shell_mean_def exact np_mean_def)
  have "radial_average f a 0 0 2 2 0 0 2 =
          astype_all Int64 (map (shell_mean f Int64) (List.filter (\<lambda>ms. ms \<noteq> [])
             (map (shell_members a 0 0 2 2 0 0) [0..2])))"
    using radial_average_inside [of 0 2 a 0 2 f 0 0 2] by (simp add: shape)
  also have "\<dots> = astype_all Int64 [Val 0, Val (4 / 3)]"
    by (simp add: a_def shell_members_corner upto_rec1 means)
  also have "\<dots> = Inr [Val 0, Val 1]"
    by (simp add: astype_def bindE_def)
  finally show ?thesis
    by (simp add: a_def shell_members_corner shell_means_corner)
qed
end
